theory Spec2Isabelle
  imports Complex_Main "HOL-Library.Log_Nat" "HOL-Library.Sublist"
begin

section \<open>Binary floating point, as far as the torch code uses it\<close>

text \<open>
  The native controllers compute brightness levels in Swift \<^verbatim>\<open>Float\<close>/\<^verbatim>\<open>Double\<close> and in
  Kotlin \<^verbatim>\<open>Double\<close>. A finite floating-point number is a rational, so levels are modelled
  as \<^typ>\<open>rat\<close> and every operation that rounds in the source rounds here too: to the
  nearest number with a \<open>p\<close>-bit significand, ties to even (24 bits for \<^verbatim>\<open>Float\<close>, 53 for
  \<^verbatim>\<open>Double\<close>). The exponent range is not bounded (no overflow, no subnormals), and
  NaN and the infinities are not values of the model: the levels that the operations
  accept lie between 1 and the 32-bit maximum, the intensities between a tenth and 1.
\<close>

definition pow2 :: "int \<Rightarrow> rat" where
  "pow2 k = (if 0 \<le> k then 2 ^ nat k else 1 / 2 ^ nat (- k))"

text \<open>The exponent \<open>e\<close> with \<open>2\<^sup>e \<le> x < 2\<^sup>e\<^sup>+\<^sup>1\<close>, for \<open>x > 0\<close>.\<close>

definition binary_exponent :: "rat \<Rightarrow> int" where
  "binary_exponent x =
     (let (a, b) = quotient_of x; k = bitlen a - bitlen b
      in if pow2 k \<le> x then k else k - 1)"

definition round_half_even :: "rat \<Rightarrow> int" where
  "round_half_even y =
     (let f = \<lfloor>y\<rfloor>; d = y - of_int f
      in if d < 1 / 2 then f else if 1 / 2 < d then f + 1
         else if even f then f else f + 1)"

definition round_to_precision :: "nat \<Rightarrow> rat \<Rightarrow> rat" where
  "round_to_precision p x =
     (if x = 0 then 0
      else let u = pow2 (binary_exponent \<bar>x\<bar> - int p + 1)
           in sgn x * of_int (round_half_even (\<bar>x\<bar> / u)) * u)"

text \<open>\<^verbatim>\<open>Float(x)\<close> and the result of a \<^verbatim>\<open>Float\<close> operation.\<close>

definition toFloat :: "rat \<Rightarrow> rat" where
  "toFloat = round_to_precision 24"

text \<open>The result of a \<^verbatim>\<open>Double\<close> operation.\<close>

definition toDouble :: "rat \<Rightarrow> rat" where
  "toDouble = round_to_precision 53"

text \<open>Swift's \<^verbatim>\<open>round\<close>: to the nearest integer, halves away from zero.\<close>

definition swift_round :: "rat \<Rightarrow> rat" where
  "swift_round x = (if 0 \<le> x then of_int \<lfloor>x + 1 / 2\<rfloor> else of_int \<lceil>x - 1 / 2\<rceil>)"

text \<open>
  Kotlin's \<^verbatim>\<open>Double.toInt()\<close>: the fraction is dropped and the result saturates at the
  bounds of the 32-bit \<^verbatim>\<open>Int\<close>. \<^verbatim>\<open>Int.toDouble()\<close> is exact.
\<close>

definition kotlin_toInt :: "rat \<Rightarrow> int" where
  "kotlin_toInt x =
     max (- 2147483648) (min 2147483647 (if 0 \<le> x then \<lfloor>x\<rfloor> else \<lceil>x\<rceil>))"

definition kotlin_toDouble :: "int \<Rightarrow> rat" where
  "kotlin_toDouble n = of_int n"


section \<open>What both controllers emit\<close>

text \<open>
  \<^verbatim>\<open>onStateChanged\<close> and \<^verbatim>\<open>onLevelChanged\<close> are single optional listener slots. The
  model records every invocation of a slot, in order, in the controller's \<open>fired\<close> log.
\<close>

datatype event = StateChanged bool | LevelChanged "rat option"


section \<open>The iOS controller (continuous intensity)\<close>

text \<open>
  The calls that reach \<^verbatim>\<open>AVCaptureDevice\<close>, in the order they are issued; a call that
  throws is logged like one that succeeds.
\<close>

datatype ios_call =
    LockForConfiguration
  | SetTorchModeOn rat
  | TorchModeOff
  | UnlockForConfiguration

datatype TorchError = noDevice | noTorch | failed string

fun code :: "TorchError \<Rightarrow> string" where
  "code noDevice = ''NoFlashAvailable''"
| "code noTorch = ''NoFlashAvailable''"
| "code (failed msg) = ''AccessFailed''"

fun message :: "TorchError \<Rightarrow> string" where
  "message noDevice = ''No camera device available''"
| "message noTorch = ''Device has no torch''"
| "message (failed msg) = ''Failed: '' @ msg"

text \<open>
  The capture device as one call finds it: whether it has a torch, the thermal ceiling
  \<^verbatim>\<open>AVCaptureDevice.maxAvailableTorchLevel\<close>, and whether \<^verbatim>\<open>lockForConfiguration\<close> or
  \<^verbatim>\<open>setTorchModeOn(level:)\<close> throws (with the error's \<^verbatim>\<open>localizedDescription\<close>).
\<close>

record AVCaptureDevice =
  hasTorch :: bool
  maxAvailableTorchLevel :: rat
  lockThrows :: "string option"
  setTorchModeOnThrows :: "string option"

record ios_torch =
  isTorchOn :: bool
  currentLevel :: rat
  previousLevel :: "rat option"
  fired :: "event list"
  calls :: "ios_call list"

definition maxTorchLevel :: rat where
  "maxTorchLevel = 10"

definition ios_init :: ios_torch where
  "ios_init = \<lparr>isTorchOn = False, currentLevel = 1, previousLevel = None,
                fired = [], calls = []\<rparr>"

text \<open>\<^verbatim>\<open>Float(level / self.maxTorchLevel)\<close>: a \<^verbatim>\<open>Double\<close> division, then the conversion.\<close>

definition normalizedLevel :: "rat \<Rightarrow> rat" where
  "normalizedLevel level = toFloat (toDouble (level / maxTorchLevel))"

text \<open>
  \<^verbatim>\<open>max(0.1, min(maxAvailable, torchLevel))\<close> with
  \<^verbatim>\<open>maxAvailable = min(AVCaptureDevice.maxAvailableTorchLevel, 1.0)\<close>, all in \<^verbatim>\<open>Float\<close>:
  the value handed to the device.
\<close>

definition clampedLevel :: "rat \<Rightarrow> rat \<Rightarrow> rat" where
  "clampedLevel maxAvailableHw torchLevel =
     (let maxAvailable = min maxAvailableHw 1
      in max (toFloat (1 / 10)) (min maxAvailable torchLevel))"

text \<open>\<^verbatim>\<open>Double(level) * maxTorchLevel\<close>: the level on the 1..10 scale, before rounding.\<close>

definition scaledLevel :: "rat \<Rightarrow> rat" where
  "scaledLevel level = toDouble (level * maxTorchLevel)"

text \<open>
  The second half of \<^verbatim>\<open>setTorchMode\<close>: the state is updated and the two listeners are
  told, each only when its value changed.
\<close>

definition ios_notify :: "bool \<Rightarrow> ios_torch \<Rightarrow> ios_torch" where
  "ios_notify enable s =
     (let wasOn = isTorchOn s;
          s1 = s\<lparr>isTorchOn := enable\<rparr>;
          s2 = (if wasOn \<noteq> enable then s1\<lparr>fired := fired s1 @ [StateChanged enable]\<rparr> else s1);
          newLevel = (if enable then Some (swift_round (currentLevel s2)) else None);
          roundedPrevious = map_option swift_round (previousLevel s2)
      in if roundedPrevious \<noteq> newLevel
         then s2\<lparr>fired := fired s2 @ [LevelChanged newLevel], previousLevel := newLevel\<rparr>
         else s2)"

text \<open>
  \<^verbatim>\<open>setTorchMode(_ enable: Bool, level: Float? = nil) throws\<close>. The result is the error
  thrown, if any, and the controller afterwards.
\<close>

definition ios_setTorchMode ::
  "AVCaptureDevice option \<Rightarrow> bool \<Rightarrow> rat option \<Rightarrow> ios_torch \<Rightarrow> TorchError option \<times> ios_torch" where
  "ios_setTorchMode device enable level s =
     (case device of
        None \<Rightarrow> (Some noDevice, s)
      | Some d \<Rightarrow>
          if \<not> hasTorch d then (Some noTorch, s)
          else
            (let s1 = s\<lparr>calls := calls s @ [LockForConfiguration]\<rparr>
             in (case lockThrows d of
                   Some msg \<Rightarrow> (Some (failed msg), s1)
                 | None \<Rightarrow>
                     if enable then
                       (let torchLevel =
                              (case level of
                                 Some l \<Rightarrow> l
                               | None \<Rightarrow> toFloat (toDouble (currentLevel s1 / maxTorchLevel)));
                            s2 = s1\<lparr>calls := calls s1 @
                                   [SetTorchModeOn (clampedLevel (maxAvailableTorchLevel d) torchLevel)]\<rparr>
                        in (case setTorchModeOnThrows d of
                              Some msg \<Rightarrow> (Some (failed msg), s2)
                            | None \<Rightarrow>
                                (let s3 = (case level of
                                             Some l \<Rightarrow> s2\<lparr>currentLevel := scaledLevel l\<rparr>
                                           | None \<Rightarrow> s2)
                                 in (None, ios_notify True
                                       (s3\<lparr>calls := calls s3 @ [UnlockForConfiguration]\<rparr>)))))
                     else
                       (None, ios_notify False
                          (s1\<lparr>calls := calls s1 @ [TorchModeOff, UnlockForConfiguration]\<rparr>)))))"

text \<open>
  The public operations run \<^verbatim>\<open>setTorchMode\<close> and rethrow a \<^verbatim>\<open>TorchError\<close> as an
  \<^verbatim>\<open>NSError\<close> whose description is the error's JSON; the model keeps the \<^verbatim>\<open>TorchError\<close>,
  whose \<^const>\<open>code\<close> and \<^const>\<open>message\<close> are the two fields of that JSON.
\<close>

definition ios_on :: "AVCaptureDevice option \<Rightarrow> ios_torch \<Rightarrow> TorchError option \<times> ios_torch" where
  "ios_on device s = ios_setTorchMode device True None s"

definition ios_off :: "AVCaptureDevice option \<Rightarrow> ios_torch \<Rightarrow> TorchError option \<times> ios_torch" where
  "ios_off device s = ios_setTorchMode device False None s"

definition ios_toggle :: "AVCaptureDevice option \<Rightarrow> ios_torch \<Rightarrow> TorchError option \<times> ios_torch" where
  "ios_toggle device s = ios_setTorchMode device (\<not> isTorchOn s) None s"

definition ios_setLevel ::
  "AVCaptureDevice option \<Rightarrow> rat \<Rightarrow> ios_torch \<Rightarrow> TorchError option \<times> ios_torch" where
  "ios_setLevel device level s =
     (if \<not> (1 \<le> level \<and> level \<le> maxTorchLevel)
      then (Some (failed ''Level must be between 1 and 10''), s)
      else ios_setTorchMode device True (Some (normalizedLevel level)) s)"

definition ios_getMaxLevel :: "AVCaptureDevice option \<Rightarrow> bool option \<Rightarrow> rat option" where
  "ios_getMaxLevel device dynamic =
     (case device of
        None \<Rightarrow> None
      | Some d \<Rightarrow>
          if \<not> hasTorch d then None
          else if dynamic = Some True then
            (let currentMax = maxAvailableTorchLevel d;
                 effectiveMax = min currentMax 1
             in Some (toFloat (effectiveMax * toFloat maxTorchLevel)))
          else Some maxTorchLevel)"

definition ios_dispose :: "AVCaptureDevice option \<Rightarrow> ios_torch \<Rightarrow> ios_torch" where
  "ios_dispose device s =
     (if isTorchOn s then
        (case ios_setTorchMode device False None s of
           (Some e, s') \<Rightarrow> s'
         | (None, s') \<Rightarrow> s'\<lparr>previousLevel := None\<rparr>)
      else s\<lparr>previousLevel := None\<rparr>)"


text \<open>A run of the controller: each call finds the device in some condition.\<close>

datatype op = On | Off | Toggle | SetLevel rat | Dispose

fun ios_step :: "AVCaptureDevice option \<times> op \<Rightarrow> ios_torch \<Rightarrow> ios_torch" where
  "ios_step (device, On) s = snd (ios_on device s)"
| "ios_step (device, Off) s = snd (ios_off device s)"
| "ios_step (device, Toggle) s = snd (ios_toggle device s)"
| "ios_step (device, SetLevel level) s = snd (ios_setLevel device level s)"
| "ios_step (device, Dispose) s = ios_dispose device s"

definition ios_run :: "(AVCaptureDevice option \<times> op) list \<Rightarrow> ios_torch \<Rightarrow> ios_torch" where
  "ios_run steps s = fold ios_step steps s"


section \<open>The Android controller (discrete strength levels)\<close>

datatype TorchException =
    CameraServiceUnavailable
  | ApiLevelTooLow
  | NoFlashAvailable
  | BrightnessControlNotSupported
  | AccessFailed string

fun exception_message :: "TorchException \<Rightarrow> string" where
  "exception_message CameraServiceUnavailable = ''Camera service not available''"
| "exception_message ApiLevelTooLow = ''Android API 23 or higher is required''"
| "exception_message NoFlashAvailable = ''No camera with flash available''"
| "exception_message BrightnessControlNotSupported =
     ''Device does not support torch brightness control''"
| "exception_message (AccessFailed cause) = ''Failed to access torch: '' @ cause"

text \<open>
  What a public operation can throw: the structured error of \<^verbatim>\<open>handleTorchException\<close>
  (an \<^verbatim>\<open>Error\<close> whose message is the JSON of a code and a message), the
  \<^verbatim>\<open>IllegalArgumentException\<close> of the range check (\<^verbatim>\<open>"Level must be between 1 and $maxLevel"\<close>,
  kept as \<open>maxLevel\<close>), a \<^verbatim>\<open>TorchException\<close> that \<^verbatim>\<open>setLevel\<close> throws as it is, and what
  the camera service throws and nothing catches.
\<close>

datatype android_thrown =
    TorchErrorJson string string
  | LevelOutOfRange int
  | Uncaught TorchException
  | CameraAccessException string
  | UnknownCameraId string
  | OtherException string

fun handleTorchException :: "TorchException \<Rightarrow> android_thrown" where
  "handleTorchException ApiLevelTooLow =
     TorchErrorJson ''ApiLevelTooLow'' (exception_message ApiLevelTooLow)"
| "handleTorchException CameraServiceUnavailable =
     TorchErrorJson ''CameraServiceUnavailable'' (exception_message CameraServiceUnavailable)"
| "handleTorchException NoFlashAvailable =
     TorchErrorJson ''NoFlashAvailable'' (exception_message NoFlashAvailable)"
| "handleTorchException BrightnessControlNotSupported =
     TorchErrorJson ''BrightnessControlNotSupported''
       (exception_message BrightnessControlNotSupported)"
| "handleTorchException (AccessFailed cause) =
     TorchErrorJson ''AccessFailed'' (exception_message (AccessFailed cause))"

text \<open>
  The torch commands sent to the \<^verbatim>\<open>CameraManager\<close>, in order. Reading the camera list
  and a camera's characteristics is not logged.
\<close>

datatype android_call =
    SetTorchMode string bool
  | TurnOnTorchWithStrengthLevel string int

record camera =
  camera_id :: string
  FLASH_INFO_AVAILABLE :: "bool option"
  LENS_FACING_BACK :: bool
  FLASH_INFO_STRENGTH_MAXIMUM_LEVEL :: "int option"

datatype torch_fault = AccessFault string | OtherFault string

fun fault_message :: "torch_fault \<Rightarrow> string" where
  "fault_message (AccessFault m) = m"
| "fault_message (OtherFault m) = m"

text \<open>
  The platform as one call finds it: \<^verbatim>\<open>Build.VERSION.SDK_INT\<close>, the camera manager with
  its cameras (or none), whether reading the camera list or a camera's characteristics
  throws a \<^verbatim>\<open>CameraAccessException\<close>, and whether a torch command throws.
\<close>

record android_env =
  SDK_INT :: int
  cameraManager :: "camera list option"
  readThrows :: "string option"
  torchCallThrows :: "torch_fault option"

definition MIN_API_LEVEL :: int where
  "MIN_API_LEVEL = 23"

definition TIRAMISU :: int where
  "TIRAMISU = 33"

record android_torch =
  cameraId :: "string option"
  isTorchOn_a :: bool
  previousLevel_a :: "rat option"
  fired_a :: "event list"
  calls_a :: "android_call list"

definition android_init :: android_torch where
  "android_init = \<lparr>cameraId = None, isTorchOn_a = False, previousLevel_a = None,
                    fired_a = [], calls_a = []\<rparr>"

subsection \<open>The \<^verbatim>\<open>TorchCallback\<close>: hardware notifications\<close>

text \<open>
  The camera service calls these two methods of the callback that the controller
  registers when it is created. When it calls them is the service's affair: in a run of
  the model a notification can come at any point.
\<close>

definition onTorchModeChanged :: "bool \<Rightarrow> android_torch \<Rightarrow> android_torch" where
  "onTorchModeChanged enabled s =
     (let s1 = s\<lparr>isTorchOn_a := enabled, fired_a := fired_a s @ [StateChanged enabled]\<rparr>
      in if \<not> enabled then
           (if previousLevel_a s1 \<noteq> None
            then s1\<lparr>fired_a := fired_a s1 @ [LevelChanged None], previousLevel_a := None\<rparr>
            else s1)
         else s1)"

definition onTorchStrengthLevelChanged ::
  "android_env \<Rightarrow> int \<Rightarrow> android_torch \<Rightarrow> android_torch" where
  "onTorchStrengthLevelChanged env newStrengthLevel s =
     (if TIRAMISU \<le> SDK_INT env then
        (let newLevel = kotlin_toDouble newStrengthLevel
         in if previousLevel_a s \<noteq> Some newLevel
            then s\<lparr>fired_a := fired_a s @ [LevelChanged (Some newLevel)],
                   previousLevel_a := Some newLevel\<rparr>
            else s)
      else s)"

subsection \<open>The operations\<close>

text \<open>
  \<^verbatim>\<open>ensureCameraId\<close>: the first back camera with a flash, else the first camera; a
  \<^verbatim>\<open>CameraAccessException\<close> leaves the id unresolved.
\<close>

definition ensureCameraId :: "android_env \<Rightarrow> android_torch \<Rightarrow> android_torch" where
  "ensureCameraId env s =
     (if cameraId s \<noteq> None then s
      else
        (case cameraManager env of
           None \<Rightarrow> s
         | Some manager \<Rightarrow>
             if readThrows env \<noteq> None then s
             else
               s\<lparr>cameraId :=
                   (case find (\<lambda>c. (case FLASH_INFO_AVAILABLE c of None \<Rightarrow> False | Some b \<Rightarrow> b)
                                    \<and> LENS_FACING_BACK c) manager of
                      Some c \<Rightarrow> Some (camera_id c)
                    | None \<Rightarrow> (case manager of [] \<Rightarrow> None | c # _ \<Rightarrow> Some (camera_id c)))\<rparr>))"

definition getCameraCharacteristics ::
  "android_env \<Rightarrow> camera list \<Rightarrow> string \<Rightarrow> android_thrown + camera" where
  "getCameraCharacteristics env manager cid =
     (case readThrows env of
        Some m \<Rightarrow> Inl (CameraAccessException m)
      | None \<Rightarrow>
          (case find (\<lambda>c. camera_id c = cid) manager of
             None \<Rightarrow> Inl (UnknownCameraId cid)
           | Some c \<Rightarrow> Inr c))"

definition android_setTorchMode ::
  "android_env \<Rightarrow> bool \<Rightarrow> android_torch \<Rightarrow> TorchException option \<times> android_torch" where
  "android_setTorchMode env enable s =
     (case cameraManager env of
        None \<Rightarrow> (Some CameraServiceUnavailable, s)
      | Some manager \<Rightarrow>
          if SDK_INT env < MIN_API_LEVEL then (Some ApiLevelTooLow, s)
          else
            (let s1 = ensureCameraId env s
             in (case cameraId s1 of
                   None \<Rightarrow> (Some NoFlashAvailable, s1)
                 | Some cid \<Rightarrow>
                     if isTorchOn_a s1 = enable then (None, s1)
                     else
                       (let s2 = s1\<lparr>calls_a := calls_a s1 @ [SetTorchMode cid enable]\<rparr>
                        in (case torchCallThrows env of
                              Some f \<Rightarrow> (Some (AccessFailed (fault_message f)), s2)
                            | None \<Rightarrow> (None, s2))))))"

definition rethrow ::
  "TorchException option \<times> android_torch \<Rightarrow> android_thrown option \<times> android_torch" where
  "rethrow r = (case r of (e, s) \<Rightarrow> (map_option handleTorchException e, s))"

definition android_on :: "android_env \<Rightarrow> android_torch \<Rightarrow> android_thrown option \<times> android_torch" where
  "android_on env s = rethrow (android_setTorchMode env True s)"

definition android_off :: "android_env \<Rightarrow> android_torch \<Rightarrow> android_thrown option \<times> android_torch" where
  "android_off env s = rethrow (android_setTorchMode env False s)"

definition android_toggle :: "android_env \<Rightarrow> android_torch \<Rightarrow> android_thrown option \<times> android_torch" where
  "android_toggle env s = rethrow (android_setTorchMode env (\<not> isTorchOn_a s) s)"

definition android_setLevel ::
  "android_env \<Rightarrow> rat \<Rightarrow> android_torch \<Rightarrow> android_thrown option \<times> android_torch" where
  "android_setLevel env level s =
     (if SDK_INT env < TIRAMISU then (Some (handleTorchException ApiLevelTooLow), s)
      else
        (case cameraManager env of
           None \<Rightarrow> (Some (handleTorchException CameraServiceUnavailable), s)
         | Some manager \<Rightarrow>
             (let s1 = ensureCameraId env s
              in (case cameraId s1 of
                    None \<Rightarrow> (Some (handleTorchException NoFlashAvailable), s1)
                  | Some cid \<Rightarrow>
                      (case getCameraCharacteristics env manager cid of
                         Inl ex \<Rightarrow> (Some ex, s1)
                       | Inr characteristics \<Rightarrow>
                           (let maxLevel =
                                  (case FLASH_INFO_STRENGTH_MAXIMUM_LEVEL characteristics of
                                     None \<Rightarrow> 1
                                   | Some m \<Rightarrow> m)
                            in if maxLevel \<le> 1
                               then (Some (handleTorchException BrightnessControlNotSupported), s1)
                               else if level < 1 \<or> level > kotlin_toDouble maxLevel
                               then (Some (LevelOutOfRange maxLevel), s1)
                               else
                                 (let levelInt = kotlin_toInt level;
                                      s2 = s1\<lparr>calls_a := calls_a s1 @
                                             [TurnOnTorchWithStrengthLevel cid levelInt]\<rparr>
                                  in (case torchCallThrows env of
                                        Some (AccessFault m) \<Rightarrow> (Some (Uncaught (AccessFailed m)), s2)
                                      | Some (OtherFault m) \<Rightarrow> (Some (OtherException m), s2)
                                      | None \<Rightarrow> (None, s2)))))))))"

text \<open>
  \<^verbatim>\<open>dispose\<close>: an exception of the torch command skips the rest of the \<^verbatim>\<open>try\<close> block and
  is only logged.
\<close>

definition android_dispose :: "android_env \<Rightarrow> android_torch \<Rightarrow> android_torch" where
  "android_dispose env s =
     (let clear = (\<lambda>t. t\<lparr>cameraId := None, previousLevel_a := None\<rparr>)
      in if isTorchOn_a s \<and> MIN_API_LEVEL \<le> SDK_INT env then
           (case cameraId s of
              None \<Rightarrow> clear s
            | Some cid \<Rightarrow>
                (case cameraManager env of
                   None \<Rightarrow> clear (s\<lparr>isTorchOn_a := False\<rparr>)
                 | Some manager \<Rightarrow>
                     (let s1 = s\<lparr>calls_a := calls_a s @ [SetTorchMode cid False]\<rparr>
                      in (case torchCallThrows env of
                            Some f \<Rightarrow> s1
                          | None \<Rightarrow> clear (s1\<lparr>isTorchOn_a := False\<rparr>)))))
         else clear s)"

text \<open>\<^verbatim>\<open>getMaxLevel\<close>: the \<^verbatim>\<open>dynamic\<close> parameter is ignored on Android.\<close>

definition android_getMaxLevel ::
  "android_env \<Rightarrow> bool option \<Rightarrow> android_torch \<Rightarrow> rat option \<times> android_torch" where
  "android_getMaxLevel env dynamic s =
     (if SDK_INT env < TIRAMISU then (None, s)
      else
        (let s1 = ensureCameraId env s
         in (case cameraId s1 of
               None \<Rightarrow> (None, s1)
             | Some cid \<Rightarrow>
                 (case cameraManager env of
                    None \<Rightarrow> (None, s1)
                  | Some manager \<Rightarrow>
                      (case getCameraCharacteristics env manager cid of
                         Inl ex \<Rightarrow> (None, s1)
                       | Inr characteristics \<Rightarrow>
                           (let maxLevel =
                                  (case FLASH_INFO_STRENGTH_MAXIMUM_LEVEL characteristics of
                                     None \<Rightarrow> 1
                                   | Some m \<Rightarrow> m)
                            in if maxLevel \<le> 1 then (None, s1)
                               else (Some (kotlin_toDouble maxLevel), s1)))))))"

text \<open>
  A run of the controller: calls of the application and notifications of the hardware,
  in the order in which they are applied.
\<close>

datatype android_input =
    Call op
  | TorchModeChanged bool
  | TorchStrengthLevelChanged int

fun android_step :: "android_env \<times> android_input \<Rightarrow> android_torch \<Rightarrow> android_torch" where
  "android_step (env, Call On) s = snd (android_on env s)"
| "android_step (env, Call Off) s = snd (android_off env s)"
| "android_step (env, Call Toggle) s = snd (android_toggle env s)"
| "android_step (env, Call (SetLevel level)) s = snd (android_setLevel env level s)"
| "android_step (env, Call Dispose) s = android_dispose env s"
| "android_step (env, TorchModeChanged enabled) s = onTorchModeChanged enabled s"
| "android_step (env, TorchStrengthLevelChanged n) s = onTorchStrengthLevelChanged env n s"

definition android_run ::
  "(android_env \<times> android_input) list \<Rightarrow> android_torch \<Rightarrow> android_torch" where
  "android_run steps s = fold android_step steps s"

text \<open>
  The conditions under which \<^verbatim>\<open>setLevel\<close> and \<^verbatim>\<open>getMaxLevel\<close> get as far as the camera's
  maximum strength level: API 33 or later, a camera manager whose reads succeed, a camera
  \<open>cid\<close> resolved by \<^const>\<open>ensureCameraId\<close> and known to the manager. \<open>m\<close> is what that camera
  reports as \<^verbatim>\<open>FLASH_INFO_STRENGTH_MAXIMUM_LEVEL\<close>.
\<close>

definition brightness_ready ::
  "android_env \<Rightarrow> android_torch \<Rightarrow> string \<Rightarrow> int option \<Rightarrow> bool" where
  "brightness_ready env s cid m =
     (TIRAMISU \<le> SDK_INT env \<and> readThrows env = None
      \<and> cameraId (ensureCameraId env s) = Some cid
      \<and> (case cameraManager env of
            None \<Rightarrow> False
          | Some manager \<Rightarrow>
              (case find (\<lambda>c. camera_id c = cid) manager of
                 None \<Rightarrow> False
               | Some c \<Rightarrow> FLASH_INFO_STRENGTH_MAXIMUM_LEVEL c = m)))"


section \<open>The JavaScript boundary: classifying what was thrown\<close>

text \<open>
  \<^verbatim>\<open>JSON.parse\<close> is the platform's: the functions below take it as a parameter, a partial
  function from texts to values (no value where it throws a \<^verbatim>\<open>SyntaxError\<close>).
\<close>

datatype json =
    JNull
  | JBool bool
  | JNumber rat
  | JString string
  | JArray "json list"
  | JObject "(string \<times> json) list"

text \<open>
  A property of a parsed value, \<open>None\<close> for \<^verbatim>\<open>undefined\<close>. Of a repeated key the last
  one counts. Reading a property of \<^verbatim>\<open>null\<close> throws; the callers treat that case first.
\<close>

fun property :: "json \<Rightarrow> string \<Rightarrow> json option" where
  "property (JObject members) k = map_of (rev members) k"
| "property v k = None"

text \<open>The \<^verbatim>\<open>TorchError\<close> object handed to the application.\<close>

record TorchError_js =
  message_js :: "json option"
  code_js :: "json option"

text \<open>
  What a rejected promise carries: an \<^verbatim>\<open>Error\<close> with its message (a string), or any other
  value, of which only \<^verbatim>\<open>String(value)\<close> matters: the string it gives, or nothing where the
  conversion throws (as it does for an object without a usable \<^verbatim>\<open>toString\<close>).
\<close>

datatype js_thrown = Error_object string | Undefined | Null | Other_value "string option"

definition TorchExceptionType_AccessFailed :: string where
  "TorchExceptionType_AccessFailed = ''AccessFailed''"

definition TorchExceptionType_Unknown :: string where
  "TorchExceptionType_Unknown = ''Unknown''"

text \<open>The rest of a text after the first occurrence of a pattern.\<close>

fun after_first :: "string \<Rightarrow> string \<Rightarrow> string option" where
  "after_first pat [] = (if pat = [] then Some [] else None)"
| "after_first pat (c # cs) =
     (if prefix pat (c # cs) then Some (drop (length pat) (c # cs)) else after_first pat cs)"

definition quoted :: "string \<Rightarrow> string" where
  "quoted w = CHR 0x22 # w @ [CHR 0x22]"

text \<open>
  \<^verbatim>\<open>message.match(/\{[^}]*"type"[^}]*"message"[^}]*\}/)\<close>: the leftmost opening brace
  whose text up to the next closing brace holds \<^verbatim>\<open>"type"\<close> and, after it,
  \<^verbatim>\<open>"message"\<close>; the match runs from the one brace to the other.
\<close>

fun jsonMatch :: "string \<Rightarrow> string option" where
  "jsonMatch [] = None"
| "jsonMatch (c # cs) =
     (if c = CHR 0x7B then
        (let inner = takeWhile (\<lambda>x. x \<noteq> CHR 0x7D) cs
         in if length inner < length cs
               \<and> (case after_first (quoted ''type'') inner of
                      None \<Rightarrow> False
                    | Some r \<Rightarrow> after_first (quoted ''message'') r \<noteq> None)
            then Some (c # inner @ [CHR 0x7D])
            else jsonMatch cs)
      else jsonMatch cs)"

text \<open>
  The text that \<^verbatim>\<open>parseTorchError\<close> hands to \<^verbatim>\<open>JSON.parse\<close> for an error message: the
  message (\<^verbatim>\<open>'Unknown error'\<close> for an empty one), or the part of it that the pattern matches.
\<close>

definition parse_input :: "string \<Rightarrow> string" where
  "parse_input error_message =
     (let message = (if error_message = [] then ''Unknown error'' else error_message)
      in (case jsonMatch message of Some m \<Rightarrow> m | None \<Rightarrow> message))"

definition parseTorchError :: "(string \<rightharpoonup> json) \<Rightarrow> string \<Rightarrow> TorchError_js" where
  "parseTorchError JSON_parse error_message =
     (let message = (if error_message = [] then ''Unknown error'' else error_message);
          caught = \<lparr>message_js = Some (JString error_message),
                    code_js = Some (JString TorchExceptionType_Unknown)\<rparr>;
          parsed = (\<lambda>text.
                      (case JSON_parse text of
                         None \<Rightarrow> caught
                       | Some JNull \<Rightarrow> caught
                       | Some errorData \<Rightarrow>
                           \<lparr>message_js = property errorData ''message'',
                            code_js = property errorData ''code''\<rparr>))
      in (case jsonMatch message of
            Some m \<Rightarrow> parsed m
          | None \<Rightarrow> parsed message))"

text \<open>
  \<^verbatim>\<open>parseAndNormalizeError\<close> returns the error object, or returns nothing: it throws
  itself where \<^verbatim>\<open>String(error)\<close> throws.
\<close>

definition parseAndNormalizeError ::
  "(string \<rightharpoonup> json) \<Rightarrow> js_thrown \<Rightarrow> TorchError_js option" where
  "parseAndNormalizeError JSON_parse error =
     (case error of
        Error_object m \<Rightarrow>
          (let parsed = parseTorchError JSON_parse m
           in Some \<lparr>message_js = message_js parsed, code_js = code_js parsed\<rparr>)
      | Undefined \<Rightarrow>
          Some \<lparr>message_js = Some (JString ''Unknown error''),
                code_js = Some (JString TorchExceptionType_AccessFailed)\<rparr>
      | Null \<Rightarrow>
          Some \<lparr>message_js = Some (JString ''Unknown error''),
                code_js = Some (JString TorchExceptionType_AccessFailed)\<rparr>
      | Other_value None \<Rightarrow> None
      | Other_value (Some str) \<Rightarrow>
          Some \<lparr>message_js = Some (JString str),
                code_js = Some (JString TorchExceptionType_AccessFailed)\<rparr>)"


section \<open>Example devices\<close>

text \<open>
  Concrete devices for the worked examples: a phone with a torch and no thermal limit, the
  same phone throttled to three quarters, an Android 13 handset whose back camera reports
  five strength levels, and one whose camera reports a single level.
\<close>

definition iphone :: AVCaptureDevice where
  "iphone = \<lparr>hasTorch = True, maxAvailableTorchLevel = 1,
              lockThrows = None, setTorchModeOnThrows = None\<rparr>"

definition warm_iphone :: AVCaptureDevice where
  "warm_iphone = \<lparr>hasTorch = True, maxAvailableTorchLevel = 3 / 4,
                   lockThrows = None, setTorchModeOnThrows = None\<rparr>"

definition back_camera :: camera where
  "back_camera = \<lparr>camera_id = ''0'', FLASH_INFO_AVAILABLE = Some True,
                   LENS_FACING_BACK = True, FLASH_INFO_STRENGTH_MAXIMUM_LEVEL = Some 5\<rparr>"

definition handset :: android_env where
  "handset = \<lparr>SDK_INT = 33, cameraManager = Some [back_camera],
               readThrows = None, torchCallThrows = None\<rparr>"

definition dim_camera :: camera where
  "dim_camera = \<lparr>camera_id = ''0'', FLASH_INFO_AVAILABLE = Some True,
                  LENS_FACING_BACK = True, FLASH_INFO_STRENGTH_MAXIMUM_LEVEL = Some 1\<rparr>"

definition dim_handset :: android_env where
  "dim_handset = \<lparr>SDK_INT = 33, cameraManager = Some [dim_camera],
                   readThrows = None, torchCallThrows = None\<rparr>"

text \<open>
  The structured error that the Android side sends for a missing flash, as text and as
  \<^verbatim>\<open>JSON.parse\<close> reads it; a number as an example of JSON that is not an error object; and
  an error object with a \<^verbatim>\<open>type\<close> member and a closing brace inside its message, of which
  the pattern of \<^verbatim>\<open>parseTorchError\<close> matches only the part up to that brace.
  \<open>example_parse\<close> reads these three texts as \<^verbatim>\<open>JSON.parse\<close> does and rejects every other.
\<close>

definition no_flash_text :: string where
  "no_flash_text =
     ''{'' @ quoted ''code'' @ '':'' @ quoted ''NoFlashAvailable'' @ '','' @
     quoted ''message'' @ '':'' @ quoted ''No camera with flash available'' @ ''}''"

definition braced_text :: string where
  "braced_text =
     ''{'' @ quoted ''type'' @ '':'' @ quoted ''a'' @ '','' @
     quoted ''message'' @ '':'' @ quoted ''x}y'' @ '','' @
     quoted ''code'' @ '':'' @ quoted ''AccessFailed'' @ ''}''"

definition example_parse :: "string \<rightharpoonup> json" where
  "example_parse =
     [no_flash_text \<mapsto> JObject [(''code'', JString ''NoFlashAvailable''),
                                  (''message'', JString ''No camera with flash available'')],
      ''123'' \<mapsto> JNumber 123,
      braced_text \<mapsto> JObject [(''type'', JString ''a''), (''message'', JString ''x}y''),
                                (''code'', JString ''AccessFailed'')]]"

text \<open>The phone after \<^verbatim>\<open>setLevel(7)\<close> on a fresh controller.\<close>

definition ios_on_7 :: ios_torch where
  "ios_on_7 = ios_run [(Some iphone, SetLevel 7)] ios_init"

text \<open>
  The handset after \<^verbatim>\<open>setLevel(3)\<close> on a fresh controller and the two notifications by
  which the hardware answers it.
\<close>

definition handset_on_3 :: android_torch where
  "handset_on_3 =
     android_run [(handset, Call (SetLevel 3)), (handset, TorchModeChanged True),
                  (handset, TorchStrengthLevelChanged 3)] android_init"


section \<open>The rounding is correct rounding\<close>

text \<open>
  The exponent is the right one, the rounded value has a significand of \<open>p\<close> bits, and it
  is within half a unit in the last place of the exact value, so within the relative error
  \<open>2\<^sup>-\<^sup>p\<close>.
\<close>

lemma pow2_power_int: "pow2 k = power_int 2 k"
  by (simp add: pow2_def power_int_def power_one_over inverse_eq_divide)

lemma pow2_pos [simp]: "0 < pow2 k"
  by (simp add: pow2_power_int)

lemma pow2_nonzero [simp]: "pow2 k \<noteq> 0"
  using pow2_pos [of k] by (simp del: pow2_pos)

lemma pow2_nonneg [simp]: "0 \<le> pow2 k"
  using pow2_pos [of k] by (simp del: pow2_pos)

lemma pow2_add: "pow2 (j + k) = pow2 j * pow2 k"
  by (simp add: pow2_power_int power_int_add)

lemma pow2_diff: "pow2 (j - k) = pow2 j / pow2 k"
  by (simp add: pow2_power_int power_int_diff)

lemma pow2_Suc: "pow2 (k + 1) = 2 * pow2 k"
  by (simp add: pow2_add) (simp add: pow2_def)

lemma bitlen_rat_bounds:
  assumes "0 < a"
  shows "pow2 (bitlen a - 1) \<le> of_int a" and "of_int a < pow2 (bitlen a)"
proof -
  have b: "0 \<le> bitlen a - 1" "0 \<le> bitlen a"
    using assms bitlen_nonneg [of a] bitlen_eq_zero_iff [of a] by linarith+
  have "(2::int) ^ nat (bitlen a - 1) \<le> a" "a < 2 ^ nat (bitlen a)"
    using bitlen_bounds [OF assms] by simp_all
  then have "of_int ((2::int) ^ nat (bitlen a - 1)) \<le> (of_int a :: rat)"
    "(of_int a :: rat) < of_int (2 ^ nat (bitlen a))"
    by (simp_all only: of_int_le_iff of_int_less_iff)
  then show "pow2 (bitlen a - 1) \<le> of_int a" "of_int a < pow2 (bitlen a)"
    using b by (simp_all add: pow2_def)
qed

lemma binary_exponent_bounds:
  assumes "0 < x"
  shows "pow2 (binary_exponent x) \<le> x" and "x < pow2 (binary_exponent x + 1)"
proof -
  obtain a b where q: "quotient_of x = (a, b)" by (cases "quotient_of x")
  then have b: "0 < b" and x: "x = of_int a / of_int b"
    by (simp_all add: quotient_of_denom_pos quotient_of_div)
  have a: "0 < a" using assms b x by (simp add: zero_less_divide_iff)
  let ?k = "bitlen a - bitlen b"
  note A = bitlen_rat_bounds [OF a] and B = bitlen_rat_bounds [OF b]
  have b': "(0::rat) < of_int b" using b by simp
  have "x < pow2 (bitlen a) / of_int b"
    unfolding x using A(2) b' by (simp add: divide_strict_right_mono)
  also have "\<dots> \<le> pow2 (bitlen a) / pow2 (bitlen b - 1)"
    using B(1) b' by (intro divide_left_mono) (simp_all add: zero_less_mult_iff)
  also have "\<dots> = pow2 (bitlen a - (bitlen b - 1))"
    by (simp only: pow2_diff)
  also have "bitlen a - (bitlen b - 1) = ?k + 1"
    by simp
  finally have up: "x < pow2 (?k + 1)" .
  have "?k - 1 = bitlen a - 1 - bitlen b"
    by simp
  then have "pow2 (?k - 1) = pow2 (bitlen a - 1) / pow2 (bitlen b)"
    by (simp only: pow2_diff)
  also have "\<dots> \<le> of_int a / pow2 (bitlen b)"
    using A(1) by (simp add: divide_right_mono)
  also have "\<dots> < of_int a / of_int b"
    using B(2) a b' by (simp add: frac_less2)
  finally have lo: "pow2 (?k - 1) < x" by (simp add: x)
  show "pow2 (binary_exponent x) \<le> x"
    using lo by (simp add: binary_exponent_def q Let_def)
  show "x < pow2 (binary_exponent x + 1)"
    using up by (auto simp add: binary_exponent_def q Let_def)
qed

lemma round_half_even_error: "\<bar>of_int (round_half_even y) - y\<bar> \<le> 1 / 2"
proof -
  have "of_int \<lfloor>y\<rfloor> \<le> y" "y < of_int \<lfloor>y\<rfloor> + 1" by linarith+
  then show ?thesis
    by (auto simp add: round_half_even_def Let_def abs_le_iff)
qed

lemma round_to_precision_error:
  assumes "x \<noteq> 0"
  shows "\<bar>round_to_precision p x - x\<bar> \<le> pow2 (binary_exponent \<bar>x\<bar> - int p)"
    and "\<bar>round_to_precision p x - x\<bar> \<le> \<bar>x\<bar> / 2 ^ p"
proof -
  let ?e = "binary_exponent \<bar>x\<bar>"
  let ?u = "pow2 (?e - int p + 1)"
  let ?n = "round_half_even (\<bar>x\<bar> / ?u)"
  have u: "0 < ?u" by simp
  have r: "round_to_precision p x = sgn x * of_int ?n * ?u"
    using assms by (simp add: round_to_precision_def Let_def)
  have "x = sgn x * \<bar>x\<bar>" by (simp add: sgn_mult_abs)
  then have "round_to_precision p x - x = sgn x * (of_int ?n * ?u - \<bar>x\<bar>)"
    unfolding r by (metis mult.assoc right_diff_distrib)
  then have "\<bar>round_to_precision p x - x\<bar> = \<bar>of_int ?n * ?u - \<bar>x\<bar>\<bar>"
    using assms by (simp add: abs_mult abs_sgn_eq)
  also have "\<dots> = \<bar>of_int ?n - \<bar>x\<bar> / ?u\<bar> * ?u"
  proof -
    have "of_int ?n * ?u - \<bar>x\<bar> = (of_int ?n - \<bar>x\<bar> / ?u) * ?u"
      using u by (simp add: field_simps)
    then show ?thesis using u by (simp add: abs_mult)
  qed
  also have "\<dots> \<le> 1 / 2 * ?u"
    using round_half_even_error [of "\<bar>x\<bar> / ?u"] u by (simp add: mult_right_mono)
  also have "\<dots> = pow2 (?e - int p)"
    using pow2_Suc [of "?e - int p"] by simp
  finally show 1: "\<bar>round_to_precision p x - x\<bar> \<le> pow2 (?e - int p)" .
  have "pow2 (?e - int p) = pow2 ?e / 2 ^ p"
    by (simp add: pow2_diff) (simp add: pow2_def)
  also have "\<dots> \<le> \<bar>x\<bar> / 2 ^ p"
    using binary_exponent_bounds(1) [of "\<bar>x\<bar>"] assms by (simp add: divide_right_mono)
  finally show "\<bar>round_to_precision p x - x\<bar> \<le> \<bar>x\<bar> / 2 ^ p"
    using 1 by simp
qed


lemma round_half_even_range:
  assumes "of_int m \<le> y" "y < of_int n"
  shows "m \<le> round_half_even y" "round_half_even y \<le> n"
proof -
  have "m \<le> \<lfloor>y\<rfloor>" "\<lfloor>y\<rfloor> < n"
    using assms by (simp_all add: le_floor_iff floor_less_iff)
  then show "m \<le> round_half_even y" "round_half_even y \<le> n"
    by (auto simp add: round_half_even_def Let_def)
qed

lemma round_to_precision_significand:
  assumes "0 < x" "0 < p"
  shows "round_to_precision p x =
           of_int (round_half_even (x / pow2 (binary_exponent x - int p + 1)))
             * pow2 (binary_exponent x - int p + 1)"
    and "2 ^ (p - 1) \<le> round_half_even (x / pow2 (binary_exponent x - int p + 1))"
    and "round_half_even (x / pow2 (binary_exponent x - int p + 1)) \<le> 2 ^ p"
proof -
  let ?e = "binary_exponent x"
  let ?u = "pow2 (?e - int p + 1)"
  show "round_to_precision p x = of_int (round_half_even (x / ?u)) * ?u"
    using assms by (simp add: round_to_precision_def Let_def)
  have e: "pow2 ?e = pow2 (int p - 1) * ?u" "pow2 (?e + 1) = pow2 (int p) * ?u"
    by (simp_all add: pow2_add [symmetric])
  have p: "pow2 (int p - 1) = of_int (2 ^ (p - 1))" "pow2 (int p) = of_int (2 ^ p)"
    using assms(2) by (simp_all add: pow2_def nat_diff_distrib)
  have "pow2 (int p - 1) \<le> x / ?u" "x / ?u < pow2 (int p)"
    using binary_exponent_bounds [OF assms(1)] unfolding e
    by (simp_all add: pos_le_divide_eq pos_divide_less_eq)
  then have "of_int (2 ^ (p - 1)) \<le> x / ?u" "x / ?u < of_int (2 ^ p)"
    unfolding p by simp_all
  then show "2 ^ (p - 1) \<le> round_half_even (x / ?u)" "round_half_even (x / ?u) \<le> 2 ^ p"
    by (rule round_half_even_range)+
qed


section \<open>Level normalisation\<close>

text \<open>
  The ten levels of the iOS scale, evaluated: the \<^verbatim>\<open>Float\<close> that \<^verbatim>\<open>setLevel\<close> computes and
  the level that \<^verbatim>\<open>setTorchMode\<close> reads back from it. They are not exact (level 7 becomes
  \<open>0.699999988\<close> and comes back as \<open>6.99999988\<close>), which is what the rounding is for.
\<close>

lemma normalizedLevel_1: "normalizedLevel 1 = 13421773 / 134217728" by code_simp
lemma normalizedLevel_2: "normalizedLevel 2 = 13421773 / 67108864" by code_simp
lemma normalizedLevel_3: "normalizedLevel 3 = 5033165 / 16777216" by code_simp
lemma normalizedLevel_4: "normalizedLevel 4 = 13421773 / 33554432" by code_simp
lemma normalizedLevel_5: "normalizedLevel 5 = 1 / 2" by code_simp
lemma normalizedLevel_6: "normalizedLevel 6 = 5033165 / 8388608" by code_simp
lemma normalizedLevel_7: "normalizedLevel 7 = 11744051 / 16777216" by code_simp
lemma normalizedLevel_8: "normalizedLevel 8 = 13421773 / 16777216" by code_simp
lemma normalizedLevel_9: "normalizedLevel 9 = 7549747 / 8388608" by code_simp
lemma normalizedLevel_10: "normalizedLevel 10 = 1" by code_simp

lemmas normalizedLevel_values =
  normalizedLevel_1 normalizedLevel_2 normalizedLevel_3 normalizedLevel_4 normalizedLevel_5
  normalizedLevel_6 normalizedLevel_7 normalizedLevel_8 normalizedLevel_9 normalizedLevel_10

lemma level_of_1: "swift_round (scaledLevel (normalizedLevel 1)) = 1" by code_simp
lemma level_of_2: "swift_round (scaledLevel (normalizedLevel 2)) = 2" by code_simp
lemma level_of_3: "swift_round (scaledLevel (normalizedLevel 3)) = 3" by code_simp
lemma level_of_4: "swift_round (scaledLevel (normalizedLevel 4)) = 4" by code_simp
lemma level_of_5: "swift_round (scaledLevel (normalizedLevel 5)) = 5" by code_simp
lemma level_of_6: "swift_round (scaledLevel (normalizedLevel 6)) = 6" by code_simp
lemma level_of_7: "swift_round (scaledLevel (normalizedLevel 7)) = 7" by code_simp
lemma level_of_8: "swift_round (scaledLevel (normalizedLevel 8)) = 8" by code_simp
lemma level_of_9: "swift_round (scaledLevel (normalizedLevel 9)) = 9" by code_simp
lemma level_of_10: "swift_round (scaledLevel (normalizedLevel 10)) = 10" by code_simp

lemmas level_of_values =
  level_of_1 level_of_2 level_of_3 level_of_4 level_of_5
  level_of_6 level_of_7 level_of_8 level_of_9 level_of_10

lemma toFloat_tenth: "toFloat (1 / 10) = 13421773 / 134217728" by code_simp

lemma level_cases:
  fixes L :: int
  assumes "1 \<le> L" "L \<le> 10"
  shows "L = 1 \<or> L = 2 \<or> L = 3 \<or> L = 4 \<or> L = 5 \<or> L = 6 \<or> L = 7 \<or> L = 8 \<or> L = 9 \<or> L = 10"
  using assms by arith

lemma ios_roundtrip:
  fixes L :: int
  assumes "1 \<le> L" "of_int L \<le> maxTorchLevel"
  shows "clampedLevel 1 (normalizedLevel (of_int L)) = normalizedLevel (of_int L)"
    and "swift_round (scaledLevel (normalizedLevel (of_int L))) = of_int L"
proof -
  from assms have "L \<le> 10" by (simp add: maxTorchLevel_def)
  with assms(1) have c:
    "L = 1 \<or> L = 2 \<or> L = 3 \<or> L = 4 \<or> L = 5 \<or> L = 6 \<or> L = 7 \<or> L = 8 \<or> L = 9 \<or> L = 10"
    by (rule level_cases)
  show "clampedLevel 1 (normalizedLevel (of_int L)) = normalizedLevel (of_int L)"
    using c by (elim disjE) (simp_all add: clampedLevel_def toFloat_tenth normalizedLevel_values)
  show "swift_round (scaledLevel (normalizedLevel (of_int L))) = of_int L"
    using c by (elim disjE) (simp_all add: level_of_values)
qed

lemma android_roundtrip:
  fixes L maxLevel :: int
  assumes "1 \<le> L" "L \<le> maxLevel" "maxLevel \<le> 2147483647"
  shows "kotlin_toDouble (kotlin_toInt (of_int L)) = of_int L"
  using assms by (simp add: kotlin_toDouble_def kotlin_toInt_def)

text \<open>
  Claim C1 (round trip of the level normalisation). For every integer level \<open>L \<ge> 1\<close>:

  \<^item> on the continuous scale (iOS, whose maximum is the constant \<^const>\<open>maxTorchLevel\<close>), if
    \<open>L\<close> is at most the maximum then, with thermal ceiling \<open>1.0\<close>, the value handed to
    the device is the normalised level itself, and the level computed back from it
    (scaled by the maximum and rounded to the nearest integer) is exactly \<open>L\<close>;
  \<^item> on the discrete scale (Android, whose maximum \<open>maxLevel\<close> is any value of the 32-bit
    \<^verbatim>\<open>Int\<close> the hardware reports), if \<open>L\<close> is at most the maximum then the strength level
    passed to the hardware, read back as a \<^verbatim>\<open>Double\<close>, is exactly \<open>L\<close>.
\<close>

theorem level_roundtrip:
  fixes L maxLevel :: int
  assumes "1 \<le> L"
  shows "(of_int L \<le> maxTorchLevel \<longrightarrow>
           clampedLevel 1 (normalizedLevel (of_int L)) = normalizedLevel (of_int L) \<and>
           swift_round (scaledLevel (clampedLevel 1 (normalizedLevel (of_int L)))) = of_int L)
       \<and> (L \<le> maxLevel \<and> maxLevel \<le> 2147483647 \<longrightarrow>
           kotlin_toDouble (kotlin_toInt (of_int L)) = of_int L)"
  using assms ios_roundtrip [of L] android_roundtrip [of L maxLevel] by simp

theorem level_roundtrip_witness:
  "(1::int) \<le> 7 \<and> of_int (7::int) \<le> maxTorchLevel \<and> (7::int) \<le> 10 \<and> (10::int) \<le> 2147483647
   \<and> clampedLevel 1 (normalizedLevel (of_int (7::int))) = normalizedLevel (of_int (7::int))
   \<and> swift_round (scaledLevel (clampedLevel 1 (normalizedLevel (of_int (7::int))))) = of_int (7::int)
   \<and> kotlin_toDouble (kotlin_toInt (of_int (7::int))) = of_int (7::int)"
  using level_roundtrip [of 7 10] by (auto simp add: maxTorchLevel_def)

section \<open>How the operations behave when the device cooperates\<close>

lemma ios_run_simps [simp]:
  "ios_run [] s = s"
  "ios_run (x # xs) s = ios_run xs (ios_step x s)"
  by (simp_all add: ios_run_def)

lemma android_run_simps [simp]:
  "android_run [] s = s"
  "android_run (x # xs) s = android_run xs (android_step x s)"
  by (simp_all add: android_run_def)

lemma swift_round_of_int [simp]: "0 \<le> L \<Longrightarrow> swift_round (of_int L) = of_int L"
  by (simp add: swift_round_def floor_eq_iff)

lemma ios_notify_False:
  "ios_notify False s =
     s\<lparr>isTorchOn := False,
       fired := fired s @ (if isTorchOn s then [StateChanged False] else [])
                        @ (if previousLevel s = None then [] else [LevelChanged None]),
       previousLevel := None\<rparr>"
  by (cases "previousLevel s") (simp_all add: ios_notify_def Let_def)

lemma ios_notify_True:
  "ios_notify True s =
     (let new = swift_round (currentLevel s);
          same = (map_option swift_round (previousLevel s) = Some new)
      in s\<lparr>isTorchOn := True,
           fired := fired s @ (if isTorchOn s then [] else [StateChanged True])
                            @ (if same then [] else [LevelChanged (Some new)]),
           previousLevel := (if same then previousLevel s else Some new)\<rparr>)"
  by (auto simp add: ios_notify_def Let_def)

lemma ios_off_ok:
  assumes "hasTorch d" "lockThrows d = None"
  shows "ios_off (Some d) s =
           (None, s\<lparr>isTorchOn := False,
                    fired := fired s @ (if isTorchOn s then [StateChanged False] else [])
                                     @ (if previousLevel s = None then [] else [LevelChanged None]),
                    previousLevel := None,
                    calls := calls s @ [LockForConfiguration, TorchModeOff, UnlockForConfiguration]\<rparr>)"
  using assms by (simp add: ios_off_def ios_setTorchMode_def Let_def ios_notify_False)

lemma ios_setLevel_ok:
  assumes "hasTorch d" "lockThrows d = None" "setTorchModeOnThrows d = None"
    "1 \<le> level" "level \<le> maxTorchLevel"
  shows "ios_setLevel (Some d) level s =
           (None, ios_notify True
              (s\<lparr>currentLevel := scaledLevel (normalizedLevel level),
                 calls := calls s @ [LockForConfiguration,
                   SetTorchModeOn (clampedLevel (maxAvailableTorchLevel d) (normalizedLevel level)),
                   UnlockForConfiguration]\<rparr>))"
  using assms by (simp add: ios_setLevel_def ios_setTorchMode_def Let_def)

lemma ios_setLevel_level:
  fixes L :: int
  assumes ok: "hasTorch d" "lockThrows d = None" "setTorchModeOnThrows d = None"
    and L: "1 \<le> L" "of_int L \<le> maxTorchLevel"
  shows "ios_setLevel (Some d) (of_int L) s =
     (let same = (map_option swift_round (previousLevel s) = Some (of_int L))
      in (None, s\<lparr>isTorchOn := True,
                  currentLevel := scaledLevel (normalizedLevel (of_int L)),
                  previousLevel := (if same then previousLevel s else Some (of_int L)),
                  fired := fired s @ (if isTorchOn s then [] else [StateChanged True])
                                   @ (if same then [] else [LevelChanged (Some (of_int L))]),
                  calls := calls s @ [LockForConfiguration,
                    SetTorchModeOn (clampedLevel (maxAvailableTorchLevel d) (normalizedLevel (of_int L))),
                    UnlockForConfiguration]\<rparr>))"
proof -
  have "(1::rat) \<le> of_int L" using L(1) by simp
  then show ?thesis
    using ok L(2) ios_roundtrip(2) [OF L]
    by (auto simp add: ios_setLevel_ok ios_notify_True Let_def)
qed

lemma ios_setLevel_new:
  fixes L :: int
  assumes "hasTorch d" "lockThrows d = None" "setTorchModeOnThrows d = None"
    and "1 \<le> L" "of_int L \<le> maxTorchLevel"
    and "map_option swift_round (previousLevel s) \<noteq> Some (of_int L)"
  shows "snd (ios_setLevel (Some d) (of_int L) s) =
           s\<lparr>isTorchOn := True,
             currentLevel := scaledLevel (normalizedLevel (of_int L)),
             previousLevel := Some (of_int L),
             fired := fired s @ (if isTorchOn s then [] else [StateChanged True])
                              @ [LevelChanged (Some (of_int L))],
             calls := calls s @ [LockForConfiguration,
               SetTorchModeOn (clampedLevel (maxAvailableTorchLevel d) (normalizedLevel (of_int L))),
               UnlockForConfiguration]\<rparr>"
  using assms(6) by (auto simp add: ios_setLevel_level [OF assms(1-5)] Let_def)


lemma ensureCameraId_keeps [simp]:
  "isTorchOn_a (ensureCameraId env s) = isTorchOn_a s"
  "previousLevel_a (ensureCameraId env s) = previousLevel_a s"
  "fired_a (ensureCameraId env s) = fired_a s"
  "calls_a (ensureCameraId env s) = calls_a s"
  by (simp_all add: ensureCameraId_def split: option.splits)

lemma ensureCameraId_resolved: "cameraId s = Some cid \<Longrightarrow> ensureCameraId env s = s"
  by (simp add: ensureCameraId_def)

lemma android_setTorchMode_ok:
  assumes "cameraManager env = Some manager" "MIN_API_LEVEL \<le> SDK_INT env"
    "cameraId (ensureCameraId env s) = Some cid" "torchCallThrows env = None"
  shows "android_setTorchMode env enable s =
           (None, (ensureCameraId env s)\<lparr>calls_a := calls_a s @
                     (if isTorchOn_a s = enable then [] else [SetTorchMode cid enable])\<rparr>)"
  using assms by (simp add: android_setTorchMode_def Let_def)

text \<open>
  Once the maximum strength level has been read, \<^verbatim>\<open>setLevel\<close> is three checks in a row:
  the brightness gate, the range check, the torch command.
\<close>

lemma android_setLevel_gate:
  assumes "brightness_ready env s cid m"
  shows "android_setLevel env level s =
     (let maxLevel = (case m of None \<Rightarrow> 1 | Some n \<Rightarrow> n); s1 = ensureCameraId env s
      in if maxLevel \<le> 1 then (Some (handleTorchException BrightnessControlNotSupported), s1)
         else if level < 1 \<or> level > kotlin_toDouble maxLevel then (Some (LevelOutOfRange maxLevel), s1)
         else (case torchCallThrows env of
                 Some (AccessFault msg) \<Rightarrow> Some (Uncaught (AccessFailed msg))
               | Some (OtherFault msg) \<Rightarrow> Some (OtherException msg)
               | None \<Rightarrow> None,
               s1\<lparr>calls_a := calls_a s @ [TurnOnTorchWithStrengthLevel cid (kotlin_toInt level)]\<rparr>))"
  using assms
  by (auto simp add: brightness_ready_def android_setLevel_def getCameraCharacteristics_def Let_def
      split: option.splits torch_fault.splits)



subsection \<open>The example devices, evaluated\<close>

lemma handset_ready: "brightness_ready handset android_init ''0'' (Some 5)"
  by (simp add: brightness_ready_def handset_def android_init_def ensureCameraId_def
      back_camera_def TIRAMISU_def)

lemma dim_handset_ready: "brightness_ready dim_handset android_init ''0'' (Some 1)"
  by (simp add: brightness_ready_def dim_handset_def android_init_def ensureCameraId_def
      dim_camera_def TIRAMISU_def)

lemma ios_on_7_eq:
  "ios_on_7 = \<lparr>isTorchOn = True, currentLevel = scaledLevel (normalizedLevel 7),
               previousLevel = Some 7, fired = [StateChanged True, LevelChanged (Some 7)],
               calls = [LockForConfiguration, SetTorchModeOn (normalizedLevel 7),
                        UnlockForConfiguration]\<rparr>"
  using ios_setLevel_new [of iphone 7 ios_init] ios_roundtrip(1) [of 7]
  by (simp add: ios_on_7_def iphone_def ios_init_def maxTorchLevel_def)

lemma handset_facts:
  "torchCallThrows handset = None" "TIRAMISU \<le> SDK_INT handset" "MIN_API_LEVEL \<le> SDK_INT handset"
  "cameraManager handset = Some [back_camera]"
  "ensureCameraId handset android_init = android_init\<lparr>cameraId := Some ''0''\<rparr>"
  by (simp_all add: handset_def TIRAMISU_def MIN_API_LEVEL_def ensureCameraId_def
      android_init_def back_camera_def)

lemma handset_on_3_eq:
  "handset_on_3 = \<lparr>cameraId = Some ''0'', isTorchOn_a = True, previousLevel_a = Some 3,
                   fired_a = [StateChanged True, LevelChanged (Some 3)],
                   calls_a = [TurnOnTorchWithStrengthLevel ''0'' 3]\<rparr>"
proof -
  have "snd (android_setLevel handset 3 android_init) =
          android_init\<lparr>cameraId := Some ''0'', calls_a := [TurnOnTorchWithStrengthLevel ''0'' 3]\<rparr>"
    unfolding android_setLevel_gate [OF handset_ready]
    by (simp add: handset_facts Let_def kotlin_toDouble_def kotlin_toInt_def)
      (simp add: android_init_def)
  then show ?thesis
    by (simp add: handset_on_3_def handset_facts onTorchModeChanged_def
        onTorchStrengthLevelChanged_def kotlin_toDouble_def android_init_def)
qed


section \<open>Turning the torch off\<close>

text \<open>
  Claim C2 as the specification states it: every \<^verbatim>\<open>off()\<close> reaches the hardware, also when
  the controller already records the torch as off. On Android it does not: on a fresh
  controller (torch recorded as off) \<^verbatim>\<open>off()\<close> on a working handset returns successfully
  and sends no torch command at all.
\<close>

theorem defensive_off_counterexample:
  "fst (android_off handset android_init) = None
   \<and> calls_a (snd (android_off handset android_init)) = []"
  by (simp add: android_off_def rethrow_def
      android_setTorchMode_ok [where manager = "[back_camera]" and cid = "''0''"] handset_facts)
    (simp add: android_init_def)

text \<open>
  Claim C2, amended. On iOS every \<^verbatim>\<open>off()\<close> that finds a device with a torch and locks it
  sends the hardware the off command, whatever the controller recorded before, and fires
  \<^verbatim>\<open>stateChanged(false)\<close> exactly when the torch was recorded as on (followed by
  \<^verbatim>\<open>levelChanged(none)\<close> exactly when a level had been notified). On Android \<^verbatim>\<open>off()\<close>
  with a camera available sends the off command only when the torch is recorded as on; when
  it is recorded as off the call returns with no torch command. In both cases the Android
  call itself fires no notification: that is left to the hardware's answer.
\<close>

theorem defensive_off:
  "(hasTorch d \<and> lockThrows d = None \<longrightarrow>
      fst (ios_off (Some d) s) = None
      \<and> calls (snd (ios_off (Some d) s)) =
          calls s @ [LockForConfiguration, TorchModeOff, UnlockForConfiguration]
      \<and> fired (snd (ios_off (Some d) s)) =
          fired s @ (if isTorchOn s then [StateChanged False] else [])
                  @ (if previousLevel s = None then [] else [LevelChanged None]))
   \<and> (cameraManager env = Some manager \<and> MIN_API_LEVEL \<le> SDK_INT env
        \<and> cameraId (ensureCameraId env t) = Some cid \<and> torchCallThrows env = None \<longrightarrow>
      fst (android_off env t) = None
      \<and> calls_a (snd (android_off env t)) =
          calls_a t @ (if isTorchOn_a t then [SetTorchMode cid False] else [])
      \<and> fired_a (snd (android_off env t)) = fired_a t)"
  by (auto simp add: ios_off_ok android_off_def rethrow_def android_setTorchMode_ok)

theorem defensive_off_witness:
  "hasTorch iphone \<and> lockThrows iphone = None
   \<and> fst (ios_off (Some iphone) ios_init) = None
   \<and> calls (snd (ios_off (Some iphone) ios_init)) =
        [LockForConfiguration, TorchModeOff, UnlockForConfiguration]
   \<and> fired (snd (ios_off (Some iphone) ios_init)) = []
   \<and> cameraManager handset = Some [back_camera] \<and> MIN_API_LEVEL \<le> SDK_INT handset
   \<and> cameraId (ensureCameraId handset handset_on_3) = Some ''0'' \<and> torchCallThrows handset = None
   \<and> fst (android_off handset handset_on_3) = None
   \<and> calls_a (snd (android_off handset handset_on_3)) =
        [TurnOnTorchWithStrengthLevel ''0'' 3, SetTorchMode ''0'' False]
   \<and> fired_a (snd (android_off handset handset_on_3)) = fired_a handset_on_3"
  using defensive_off [where d = iphone and s = ios_init]
    defensive_off [where env = handset and t = handset_on_3 and manager = "[back_camera]"
      and cid = "''0''"]
  by (simp add: iphone_def ios_init_def handset_facts handset_on_3_eq ensureCameraId_def)

text \<open>
  Claim C3 (off clears the level, in order). From a state in which the torch is on and
  \<open>L\<close> is the last notified level, a successful \<^verbatim>\<open>off()\<close> fires \<^verbatim>\<open>stateChanged(false)\<close> and
  then \<^verbatim>\<open>levelChanged(none)\<close>, once each and nothing else: on iOS inside the call, on
  Android when the hardware answers the call's torch command with its torch-mode
  notification (the call itself sends that one command and fires nothing).
\<close>

theorem off_clears_level:
  "(isTorchOn s \<and> previousLevel s = Some L \<and> hasTorch d \<and> lockThrows d = None \<longrightarrow>
      fst (ios_off (Some d) s) = None
      \<and> fired (snd (ios_off (Some d) s)) = fired s @ [StateChanged False, LevelChanged None])
   \<and> (isTorchOn_a t \<and> previousLevel_a t = Some L \<and> cameraManager env = Some manager
        \<and> MIN_API_LEVEL \<le> SDK_INT env \<and> cameraId (ensureCameraId env t) = Some cid
        \<and> torchCallThrows env = None \<longrightarrow>
      fst (android_off env t) = None
      \<and> calls_a (snd (android_off env t)) = calls_a t @ [SetTorchMode cid False]
      \<and> fired_a (snd (android_off env t)) = fired_a t
      \<and> fired_a (android_run [(env, Call Off), (env', TorchModeChanged False)] t) =
          fired_a t @ [StateChanged False, LevelChanged None])"
  by (auto simp add: ios_off_ok android_off_def rethrow_def android_setTorchMode_ok
      onTorchModeChanged_def Let_def)

theorem off_clears_level_witness:
  "isTorchOn ios_on_7 \<and> previousLevel ios_on_7 = Some 7 \<and> hasTorch iphone \<and> lockThrows iphone = None
   \<and> fst (ios_off (Some iphone) ios_on_7) = None
   \<and> fired (snd (ios_off (Some iphone) ios_on_7)) =
        [StateChanged True, LevelChanged (Some 7), StateChanged False, LevelChanged None]
   \<and> isTorchOn_a handset_on_3 \<and> previousLevel_a handset_on_3 = Some 3
   \<and> cameraManager handset = Some [back_camera] \<and> MIN_API_LEVEL \<le> SDK_INT handset
   \<and> cameraId (ensureCameraId handset handset_on_3) = Some ''0'' \<and> torchCallThrows handset = None
   \<and> fired_a (android_run [(handset, Call Off), (handset, TorchModeChanged False)] handset_on_3) =
        [StateChanged True, LevelChanged (Some 3), StateChanged False, LevelChanged None]"
  using off_clears_level [where s = ios_on_7 and L = 7 and d = iphone]
    off_clears_level [where t = handset_on_3 and L = 3 and env = handset and env' = handset
      and manager = "[back_camera]" and cid = "''0''"]
  by (simp add: ios_on_7_eq iphone_def handset_on_3_eq handset_facts ensureCameraId_def)


section \<open>Notifications are not repeated\<close>









section \<open>What \<^verbatim>\<open>setLevel\<close> rejects\<close>

lemma ios_setLevel_out_of_range:
  assumes "level < 1 \<or> maxTorchLevel < level"
  shows "ios_setLevel device level s = (Some (failed ''Level must be between 1 and 10''), s)"
  using assms by (auto simp add: ios_setLevel_def)

lemma android_setLevel_out_of_range:
  assumes "brightness_ready env t cid (Some m)" "1 < m" "level < 1 \<or> of_int m < level"
  shows "android_setLevel env level t = (Some (LevelOutOfRange m), ensureCameraId env t)"
  using assms(2,3)
  by (auto simp add: android_setLevel_gate [OF assms(1)] Let_def kotlin_toDouble_def)

text \<open>
  Claim C5 as the specification states it: \<^verbatim>\<open>setLevel(0)\<close> fails with the error kind
  \<^verbatim>\<open>InvalidArgument\<close>. No such kind exists in the code. On iOS the error of the range check
  is a \<^verbatim>\<open>TorchError.failed\<close>, whose code is \<^verbatim>\<open>AccessFailed\<close>; on Android it is an
  \<^verbatim>\<open>IllegalArgumentException\<close>, which carries no code at all.
\<close>

theorem out_of_range_counterexample:
  "map_option code (fst (ios_setLevel (Some iphone) 0 ios_init)) = Some ''AccessFailed''
   \<and> map_option code (fst (ios_setLevel (Some iphone) 0 ios_init)) \<noteq> Some ''InvalidArgument''
   \<and> fst (android_setLevel handset 0 android_init) = Some (LevelOutOfRange 5)"
  by (simp add: ios_setLevel_out_of_range android_setLevel_out_of_range [OF handset_ready])

text \<open>
  Claim C5, amended. A level below 1 or above the maximum (so \<open>0\<close> and \<open>maxLevel + 1\<close>) is
  rejected without any torch command. On iOS the check comes first: whatever the device, the
  call fails with the \<^verbatim>\<open>TorchError.failed\<close> ``Level must be between 1 and 10'', whose code is
  \<^verbatim>\<open>AccessFailed\<close>, and the controller is unchanged. On Android the check comes after the
  API level, the camera and the brightness gate have been checked and the maximum \<open>m > 1\<close>
  has been read from the camera: the call then fails with the \<^verbatim>\<open>IllegalArgumentException\<close>
  ``Level must be between 1 and \<open>m\<close>'', and nothing has changed but the cached camera id.
\<close>

theorem out_of_range_rejected:
  "(level < 1 \<or> maxTorchLevel < level \<longrightarrow>
      ios_setLevel device level s = (Some (failed ''Level must be between 1 and 10''), s)
      \<and> code (failed ''Level must be between 1 and 10'') = ''AccessFailed'')
   \<and> (brightness_ready env t cid (Some m) \<and> 1 < m \<and> (level < 1 \<or> of_int m < level) \<longrightarrow>
      android_setLevel env level t = (Some (LevelOutOfRange m), ensureCameraId env t)
      \<and> calls_a (ensureCameraId env t) = calls_a t
      \<and> fired_a (ensureCameraId env t) = fired_a t)"
  using ios_setLevel_out_of_range [of level device s]
    android_setLevel_out_of_range [of env t cid m level]
  by simp

theorem out_of_range_rejected_witness:
  "((0::rat) < 1 \<or> maxTorchLevel < 0)
   \<and> ios_setLevel (Some iphone) 0 ios_init =
        (Some (failed ''Level must be between 1 and 10''), ios_init)
   \<and> ((11::rat) < 1 \<or> maxTorchLevel < 11)
   \<and> ios_setLevel (Some iphone) 11 ios_init =
        (Some (failed ''Level must be between 1 and 10''), ios_init)
   \<and> brightness_ready handset android_init ''0'' (Some 5) \<and> (1::int) < 5
   \<and> ((6::rat) < 1 \<or> of_int (5::int) < (6::rat))
   \<and> android_setLevel handset 6 android_init =
        (Some (LevelOutOfRange 5), android_init\<lparr>cameraId := Some ''0''\<rparr>)
   \<and> calls_a (android_init\<lparr>cameraId := Some ''0''\<rparr>) = []"
  using out_of_range_rejected [where level = 0 and device = "Some iphone" and s = ios_init]
    out_of_range_rejected [where level = 11 and device = "Some iphone" and s = ios_init]
    out_of_range_rejected [where level = 6 and env = handset and t = android_init
      and cid = "''0''" and m = 5]
    handset_ready
  by (simp add: maxTorchLevel_def handset_facts) (simp add: android_init_def)

text \<open>
  Claim C6 (brightness gate). Whenever the maximum strength level that the hardware reports
  is at most 1 (a missing value counts as 1), every \<^verbatim>\<open>setLevel(level)\<close>, \<^verbatim>\<open>setLevel(1)\<close>
  included, fails with the structured error \<^verbatim>\<open>BrightnessControlNotSupported\<close> and sends no
  torch command. Only Android has a maximum reported by the hardware (on iOS it is the
  constant 10), and the report is read once the API level and the camera have been checked.
\<close>

theorem brightness_gate:
  "brightness_ready env s cid m \<and> (case m of None \<Rightarrow> 1 | Some n \<Rightarrow> n) \<le> 1 \<longrightarrow>
     android_setLevel env level s =
       (Some (TorchErrorJson ''BrightnessControlNotSupported''
                ''Device does not support torch brightness control''),
        ensureCameraId env s)
     \<and> calls_a (snd (android_setLevel env level s)) = calls_a s"
  by (auto simp add: android_setLevel_gate Let_def)

theorem brightness_gate_witness:
  "brightness_ready dim_handset android_init ''0'' (Some 1)
   \<and> (case Some (1::int) of None \<Rightarrow> 1 | Some n \<Rightarrow> n) \<le> 1
   \<and> fst (android_setLevel dim_handset 1 android_init) =
        Some (TorchErrorJson ''BrightnessControlNotSupported''
                ''Device does not support torch brightness control'')
   \<and> calls_a (snd (android_setLevel dim_handset 1 android_init)) = []"
  using brightness_gate [where env = dim_handset and s = android_init and cid = "''0''"
      and m = "Some 1" and level = 1] dim_handset_ready
  by (simp add: android_init_def)


section \<open>The maximum level\<close>

lemma toFloat_ten: "toFloat maxTorchLevel = 10"
  unfolding maxTorchLevel_def by code_simp

lemma half_ceiling: "toFloat (min (1 / 2) 1 * 10) = 5"
  by code_simp

lemma three_quarter_ceiling: "toFloat (min (3 / 4) 1 * 10) = 15 / 2"
  by code_simp

lemma full_ceiling: "toFloat (1 * 10) = 10"
  by code_simp

lemma ios_getMaxLevel_dynamic:
  assumes "hasTorch d"
  shows "ios_getMaxLevel (Some d) (Some True) =
           Some (toFloat (min (maxAvailableTorchLevel d) 1 * 10))"
  using assms by (simp add: ios_getMaxLevel_def toFloat_ten Let_def)

lemma ios_getMaxLevel_fixed:
  assumes "hasTorch d" "dynamic \<noteq> Some True"
  shows "ios_getMaxLevel (Some d) dynamic = Some 10"
  using assms by (simp add: ios_getMaxLevel_def maxTorchLevel_def)

lemma ios_getMaxLevel_none:
  "ios_getMaxLevel None dynamic = None"
  "\<not> hasTorch d \<Longrightarrow> ios_getMaxLevel (Some d) dynamic = None"
  by (simp_all add: ios_getMaxLevel_def)

lemma android_getMaxLevel_none:
  "SDK_INT env < TIRAMISU \<Longrightarrow> fst (android_getMaxLevel env dynamic s) = None"
  "cameraId (ensureCameraId env s) = None \<Longrightarrow> fst (android_getMaxLevel env dynamic s) = None"
  by (simp_all add: android_getMaxLevel_def Let_def)

lemma android_getMaxLevel_ready:
  assumes "brightness_ready env s cid m"
  shows "android_getMaxLevel env dynamic s =
           (case m of
              None \<Rightarrow> None
            | Some n \<Rightarrow> if n \<le> 1 then None else Some (of_int n),
            ensureCameraId env s)"
  using assms
  by (auto simp add: brightness_ready_def android_getMaxLevel_def getCameraCharacteristics_def
      kotlin_toDouble_def Let_def split: option.splits)

text \<open>
  Claim C7 as the specification states it: \<^verbatim>\<open>getMaxLevel(true)\<close> is the product of the
  thermal ceiling and the maximum, rounded. The iOS code does not round: with the ceiling
  at three quarters it returns \<open>7.5\<close>, where the rounded product is 8.
\<close>

theorem getMaxLevel_counterexample:
  "ios_getMaxLevel (Some warm_iphone) (Some True) = Some (15 / 2)
   \<and> swift_round (min (maxAvailableTorchLevel warm_iphone) 1 * maxTorchLevel) = 8"
proof
  have "hasTorch warm_iphone" "maxAvailableTorchLevel warm_iphone = 3 / 4"
    by (simp_all add: warm_iphone_def)
  then show "ios_getMaxLevel (Some warm_iphone) (Some True) = Some (15 / 2)"
    by (simp only: ios_getMaxLevel_dynamic three_quarter_ceiling)
  show "swift_round (min (maxAvailableTorchLevel warm_iphone) 1 * maxTorchLevel) = 8"
    by (simp add: warm_iphone_def maxTorchLevel_def swift_round_def)
qed

text \<open>
  Claim C7, amended. On iOS, for a device with a torch, \<^verbatim>\<open>getMaxLevel(true)\<close> returns the
  \<^verbatim>\<open>Float\<close> product of \<open>min(thermalCeiling, 1.0)\<close> and 10, not rounded to an integer: 5 for
  the ceiling \<open>0.5\<close>, 10 for every ceiling from \<open>1.0\<close> up; \<^verbatim>\<open>getMaxLevel(false)\<close> and
  \<^verbatim>\<open>getMaxLevel()\<close> return the fixed maximum 10; without a device or without a torch the
  result is none. On Android the \<^verbatim>\<open>dynamic\<close> argument is ignored: the result is the maximum
  strength level the camera reports when that is above 1, and none when it is at most 1 or
  missing, when the API level is below 33, or when no camera is found.
\<close>

theorem getMaxLevel_contract:
  "(hasTorch d \<longrightarrow>
      ios_getMaxLevel (Some d) (Some True) =
        Some (toFloat (min (maxAvailableTorchLevel d) 1 * 10))
      \<and> (maxAvailableTorchLevel d = 1 / 2 \<longrightarrow> ios_getMaxLevel (Some d) (Some True) = Some 5)
      \<and> (1 \<le> maxAvailableTorchLevel d \<longrightarrow> ios_getMaxLevel (Some d) (Some True) = Some 10)
      \<and> ios_getMaxLevel (Some d) (Some False) = Some 10
      \<and> ios_getMaxLevel (Some d) None = Some 10)
   \<and> (\<not> hasTorch d \<longrightarrow> ios_getMaxLevel (Some d) dynamic = None)
   \<and> ios_getMaxLevel None dynamic = None
   \<and> (brightness_ready env s cid m \<longrightarrow>
        fst (android_getMaxLevel env dynamic s) =
          (case m of None \<Rightarrow> None | Some n \<Rightarrow> if n \<le> 1 then None else Some (of_int n)))
   \<and> (SDK_INT env < TIRAMISU \<longrightarrow> fst (android_getMaxLevel env dynamic s) = None)
   \<and> (cameraId (ensureCameraId env s) = None \<longrightarrow> fst (android_getMaxLevel env dynamic s) = None)"
proof (intro conjI impI)
  assume t: "hasTorch d"
  show "ios_getMaxLevel (Some d) (Some True) =
          Some (toFloat (min (maxAvailableTorchLevel d) 1 * 10))"
    by (rule ios_getMaxLevel_dynamic [OF t])
  show "ios_getMaxLevel (Some d) (Some True) = Some 5" if "maxAvailableTorchLevel d = 1 / 2"
    by (simp only: ios_getMaxLevel_dynamic [OF t] that half_ceiling)
  show "ios_getMaxLevel (Some d) (Some True) = Some 10" if "1 \<le> maxAvailableTorchLevel d"
  proof -
    have "min (maxAvailableTorchLevel d) 1 = 1" using that by simp
    then show ?thesis by (simp only: ios_getMaxLevel_dynamic [OF t] full_ceiling)
  qed
  show "ios_getMaxLevel (Some d) (Some False) = Some 10"
    by (rule ios_getMaxLevel_fixed [OF t]) simp
  show "ios_getMaxLevel (Some d) None = Some 10"
    by (rule ios_getMaxLevel_fixed [OF t]) simp
next
  show "ios_getMaxLevel (Some d) dynamic = None" if "\<not> hasTorch d"
    using that by (rule ios_getMaxLevel_none)
  show "ios_getMaxLevel None dynamic = None"
    by (rule ios_getMaxLevel_none)
  show "fst (android_getMaxLevel env dynamic s) =
          (case m of None \<Rightarrow> None | Some n \<Rightarrow> if n \<le> 1 then None else Some (of_int n))"
    if "brightness_ready env s cid m"
    by (simp add: android_getMaxLevel_ready [OF that])
  show "fst (android_getMaxLevel env dynamic s) = None" if "SDK_INT env < TIRAMISU"
    using that by (rule android_getMaxLevel_none)
  show "fst (android_getMaxLevel env dynamic s) = None" if "cameraId (ensureCameraId env s) = None"
    using that by (rule android_getMaxLevel_none)
qed

theorem getMaxLevel_contract_witness:
  "hasTorch (iphone\<lparr>maxAvailableTorchLevel := 1 / 2\<rparr>)
   \<and> maxAvailableTorchLevel (iphone\<lparr>maxAvailableTorchLevel := 1 / 2\<rparr>) = 1 / 2
   \<and> ios_getMaxLevel (Some (iphone\<lparr>maxAvailableTorchLevel := 1 / 2\<rparr>)) (Some True) = Some 5
   \<and> ios_getMaxLevel (Some (iphone\<lparr>maxAvailableTorchLevel := 1 / 2\<rparr>)) (Some False) = Some 10
   \<and> hasTorch iphone \<and> 1 \<le> maxAvailableTorchLevel iphone
   \<and> ios_getMaxLevel (Some iphone) (Some True) = Some 10
   \<and> \<not> hasTorch (iphone\<lparr>hasTorch := False\<rparr>)
   \<and> ios_getMaxLevel (Some (iphone\<lparr>hasTorch := False\<rparr>)) (Some True) = None
   \<and> brightness_ready handset android_init ''0'' (Some 5)
   \<and> fst (android_getMaxLevel handset (Some True) android_init) = Some 5
   \<and> brightness_ready dim_handset android_init ''0'' (Some 1)
   \<and> fst (android_getMaxLevel dim_handset (Some False) android_init) = None
   \<and> SDK_INT (handset\<lparr>SDK_INT := 32\<rparr>) < TIRAMISU
   \<and> fst (android_getMaxLevel (handset\<lparr>SDK_INT := 32\<rparr>) None android_init) = None
   \<and> cameraId (ensureCameraId (handset\<lparr>cameraManager := Some []\<rparr>) android_init) = None
   \<and> fst (android_getMaxLevel (handset\<lparr>cameraManager := Some []\<rparr>) None android_init) = None"
  using getMaxLevel_contract [where d = "iphone\<lparr>maxAvailableTorchLevel := 1 / 2\<rparr>"]
    getMaxLevel_contract [where d = iphone]
    getMaxLevel_contract [where d = "iphone\<lparr>hasTorch := False\<rparr>" and dynamic = "Some True"]
    getMaxLevel_contract [where env = handset and s = android_init and cid = "''0''"
      and m = "Some 5" and dynamic = "Some True"]
    getMaxLevel_contract [where env = dim_handset and s = android_init and cid = "''0''"
      and m = "Some 1" and dynamic = "Some False"]
    getMaxLevel_contract [where env = "handset\<lparr>SDK_INT := 32\<rparr>" and s = android_init
      and dynamic = None]
    getMaxLevel_contract [where env = "handset\<lparr>cameraManager := Some []\<rparr>" and s = android_init
      and dynamic = None]
    handset_ready dim_handset_ready
  by (simp add: iphone_def handset_def TIRAMISU_def ensureCameraId_def android_init_def)

section \<open>Classifying errors\<close>

lemma parseTorchError_parse_input:
  "parseTorchError JSON_parse m =
     (case JSON_parse (parse_input m) of
        None \<Rightarrow> \<lparr>message_js = Some (JString m), code_js = Some (JString ''Unknown'')\<rparr>
      | Some JNull \<Rightarrow> \<lparr>message_js = Some (JString m), code_js = Some (JString ''Unknown'')\<rparr>
      | Some v \<Rightarrow> \<lparr>message_js = property v ''message'', code_js = property v ''code''\<rparr>)"
  by (simp add: parseTorchError_def parse_input_def Let_def TorchExceptionType_Unknown_def
      split: option.splits json.splits)

lemma parse_input_whole:
  assumes "m \<noteq> []" "jsonMatch m = None"
  shows "parse_input m = m"
  using assms by (simp add: parse_input_def)

text \<open>
  Claim C8 as the specification states it: every thrown value that does not parse as a
  structured error, a value that is not an \<^verbatim>\<open>Error\<close> included, is classified as
  \<^verbatim>\<open>Unknown\<close>. A thrown string is not: whatever \<^verbatim>\<open>JSON.parse\<close> does (here it rejects every
  text), it is classified as \<^verbatim>\<open>AccessFailed\<close>.
\<close>

theorem classification_counterexample:
  "map_option code_js (parseAndNormalizeError Map.empty (Other_value (Some ''boom''))) =
     Some (Some (JString ''AccessFailed''))
   \<and> map_option code_js (parseAndNormalizeError Map.empty (Other_value (Some ''boom''))) \<noteq>
     Some (Some (JString ''Unknown''))"
  by (simp add: parseAndNormalizeError_def TorchExceptionType_AccessFailed_def)

text \<open>
  Claim C8, amended. For a thrown \<^verbatim>\<open>Error\<close> the classification goes by the text that is
  handed to \<^verbatim>\<open>JSON.parse\<close>, here \<^const>\<open>parse_input\<close> of the message. That text is the message
  itself (\<^verbatim>\<open>'Unknown error'\<close> for an empty one) unless the message has an opening brace whose
  text up to the next closing brace holds \<^verbatim>\<open>"type"\<close> and, after it, \<^verbatim>\<open>"message"\<close>; then
  it is only the part of the message from the leftmost such brace to that closing brace.

  \<^item> If \<^verbatim>\<open>JSON.parse\<close> throws on that text, or reads it as \<^verbatim>\<open>null\<close>, the error is classified
    as \<^verbatim>\<open>Unknown\<close> and keeps its whole message.
  \<^item> If \<^verbatim>\<open>JSON.parse\<close> reads that text as an object with a string \<^verbatim>\<open>code\<close> and a string
    \<^verbatim>\<open>message\<close>, the result has that code and that message.
  \<^item> A thrown value that is not an \<^verbatim>\<open>Error\<close> is classified as \<^verbatim>\<open>AccessFailed\<close>, with
    \<^verbatim>\<open>'Unknown error'\<close> as the message for \<^verbatim>\<open>null\<close> and \<^verbatim>\<open>undefined\<close> and with
    \<^verbatim>\<open>String(value)\<close> for any other value for which that conversion returns; where the
    conversion throws, \<^verbatim>\<open>parseAndNormalizeError\<close> throws and classifies nothing.
\<close>

theorem classification:
  "(JSON_parse (parse_input m) = None \<or> JSON_parse (parse_input m) = Some JNull \<longrightarrow>
      parseAndNormalizeError JSON_parse (Error_object m) =
        Some \<lparr>message_js = Some (JString m), code_js = Some (JString ''Unknown'')\<rparr>)
   \<and> (JSON_parse (parse_input m) = Some (JObject members)
        \<and> property (JObject members) ''code'' = Some (JString c)
        \<and> property (JObject members) ''message'' = Some (JString msg) \<longrightarrow>
      parseAndNormalizeError JSON_parse (Error_object m) =
        Some \<lparr>message_js = Some (JString msg), code_js = Some (JString c)\<rparr>)
   \<and> parse_input m =
        (case jsonMatch (if m = [] then ''Unknown error'' else m) of
           Some part \<Rightarrow> part
         | None \<Rightarrow> if m = [] then ''Unknown error'' else m)
   \<and> parseAndNormalizeError JSON_parse (Other_value (Some str)) =
        Some \<lparr>message_js = Some (JString str), code_js = Some (JString ''AccessFailed'')\<rparr>
   \<and> parseAndNormalizeError JSON_parse (Other_value None) = None
   \<and> parseAndNormalizeError JSON_parse Null =
        Some \<lparr>message_js = Some (JString ''Unknown error''),
              code_js = Some (JString ''AccessFailed'')\<rparr>
   \<and> parseAndNormalizeError JSON_parse Undefined =
        Some \<lparr>message_js = Some (JString ''Unknown error''),
              code_js = Some (JString ''AccessFailed'')\<rparr>"
  by (auto simp add: parseAndNormalizeError_def parseTorchError_parse_input parse_input_def
      TorchExceptionType_AccessFailed_def Let_def simp del: property.simps)

lemma parse_input_examples:
  "parse_input ''Camera is in use'' = ''Camera is in use''"
  "parse_input ''123'' = ''123''"
  "parse_input no_flash_text = no_flash_text"
  by (simp_all add: parse_input_def no_flash_text_def quoted_def)

text \<open>Of the braced text the pattern keeps the part up to the brace inside the message.\<close>

lemma parse_input_braced:
  "parse_input braced_text =
     ''{'' @ quoted ''type'' @ '':'' @ quoted ''a'' @ '','' @
     quoted ''message'' @ '':'' @ [CHR 0x22] @ ''x}''"
  by (simp add: parse_input_def braced_text_def quoted_def)

lemma example_parse_values:
  "example_parse ''Camera is in use'' = None"
  "example_parse ''123'' = Some (JNumber 123)"
  "example_parse no_flash_text =
     Some (JObject [(''code'', JString ''NoFlashAvailable''),
                    (''message'', JString ''No camera with flash available'')])"
  "example_parse braced_text =
     Some (JObject [(''type'', JString ''a''), (''message'', JString ''x}y''),
                    (''code'', JString ''AccessFailed'')])"
  "example_parse (parse_input braced_text) = None"
  unfolding parse_input_braced
  by (simp_all add: example_parse_def no_flash_text_def braced_text_def quoted_def)

theorem classification_witness:
  "(example_parse (parse_input ''Camera is in use'') = None
      \<or> example_parse (parse_input ''Camera is in use'') = Some JNull)
   \<and> parseAndNormalizeError example_parse (Error_object ''Camera is in use'') =
        Some \<lparr>message_js = Some (JString ''Camera is in use''),
              code_js = Some (JString ''Unknown'')\<rparr>
   \<and> (example_parse (parse_input no_flash_text) =
        Some (JObject [(''code'', JString ''NoFlashAvailable''),
                       (''message'', JString ''No camera with flash available'')])
      \<and> property (JObject [(''code'', JString ''NoFlashAvailable''),
                         (''message'', JString ''No camera with flash available'')]) ''code'' =
        Some (JString ''NoFlashAvailable'')
      \<and> property (JObject [(''code'', JString ''NoFlashAvailable''),
                         (''message'', JString ''No camera with flash available'')]) ''message'' =
        Some (JString ''No camera with flash available''))
   \<and> parseAndNormalizeError example_parse (Error_object no_flash_text) =
        Some \<lparr>message_js = Some (JString ''No camera with flash available''),
              code_js = Some (JString ''NoFlashAvailable'')\<rparr>
   \<and> (example_parse (parse_input braced_text) = None
      \<or> example_parse (parse_input braced_text) = Some JNull)
   \<and> parseAndNormalizeError example_parse (Error_object braced_text) =
        Some \<lparr>message_js = Some (JString braced_text), code_js = Some (JString ''Unknown'')\<rparr>"
proof -
  have h1: "example_parse (parse_input ''Camera is in use'') = None
      \<or> example_parse (parse_input ''Camera is in use'') = Some JNull"
    by (simp add: parse_input_examples example_parse_values)
  have h2: "example_parse (parse_input no_flash_text) =
        Some (JObject [(''code'', JString ''NoFlashAvailable''),
                       (''message'', JString ''No camera with flash available'')])
      \<and> property (JObject [(''code'', JString ''NoFlashAvailable''),
                         (''message'', JString ''No camera with flash available'')]) ''code'' =
        Some (JString ''NoFlashAvailable'')
      \<and> property (JObject [(''code'', JString ''NoFlashAvailable''),
                         (''message'', JString ''No camera with flash available'')]) ''message'' =
        Some (JString ''No camera with flash available'')"
    by (simp add: parse_input_examples example_parse_values)
  have h3: "example_parse (parse_input braced_text) = None
      \<or> example_parse (parse_input braced_text) = Some JNull"
    by (simp add: example_parse_values)
  note w1 = classification [where JSON_parse = example_parse and m = "''Camera is in use''",
      THEN conjunct1, THEN mp, OF h1]
  note w2 = classification [where JSON_parse = example_parse and m = no_flash_text
      and members = "[(''code'', JString ''NoFlashAvailable''),
                      (''message'', JString ''No camera with flash available'')]"
      and c = "''NoFlashAvailable''" and msg = "''No camera with flash available''",
      THEN conjunct2, THEN conjunct1, THEN mp, OF h2]
  note w3 = classification [where JSON_parse = example_parse and m = braced_text,
      THEN conjunct1, THEN mp, OF h3]
  show ?thesis
    using h1 h2 h3 w1 w2 w3 by blast
qed

text \<open>
  So the braced text, though \<^verbatim>\<open>JSON.parse\<close> reads the whole of it as an object with a
  string code and a string message, is classified as \<^verbatim>\<open>Unknown\<close>: what is parsed is the
  part that the pattern matched. And a message that is JSON but not an error object is
  neither classified nor rejected: it comes out with whatever \<^verbatim>\<open>message\<close> and \<^verbatim>\<open>code\<close> the
  parsed value has. For the message \<^verbatim>\<open>123\<close> both are undefined.
\<close>

lemma json_number_is_not_classified:
  "parseAndNormalizeError example_parse (Error_object ''123'') =
     Some \<lparr>message_js = None, code_js = None\<rparr>"
  by (simp add: parseAndNormalizeError_def parseTorchError_parse_input parse_input_examples
      example_parse_values)


section \<open>The power flag and the last notified level\<close>

lemma ios_notify_isTorchOn [simp]: "isTorchOn (ios_notify enable s) = enable"
  by (simp add: ios_notify_def Let_def)

lemma ios_notify_previousLevel [simp]:
  "(previousLevel (ios_notify enable s) = None) = (\<not> enable)"
  by (cases enable) (auto simp add: ios_notify_True ios_notify_False Let_def)

lemma ios_notify_previousLevel_Some [simp]:
  "(\<exists>y. previousLevel (ios_notify enable s) = Some y) = enable"
  using ios_notify_previousLevel [of enable s] by (cases "previousLevel (ios_notify enable s)") auto

lemma ios_setTorchMode_coupled:
  assumes "isTorchOn s = (previousLevel s \<noteq> None)"
  shows "isTorchOn (snd (ios_setTorchMode device enable level s)) =
           (previousLevel (snd (ios_setTorchMode device enable level s)) \<noteq> None)"
  using assms
  by (simp add: ios_setTorchMode_def Let_def split: option.splits)

lemma ios_setTorchMode_off_result:
  assumes "ios_setTorchMode device False level s = (None, s')"
  shows "\<not> isTorchOn s'"
  using assms by (auto simp add: ios_setTorchMode_def Let_def split: option.splits if_splits)

lemma ios_step_coupled:
  assumes "isTorchOn s = (previousLevel s \<noteq> None)"
  shows "isTorchOn (ios_step x s) = (previousLevel (ios_step x s) \<noteq> None)"
proof (cases x)
  case (Pair device o')
  show ?thesis
  proof (cases o')
    case On
    with Pair show ?thesis by (simp add: ios_on_def ios_setTorchMode_coupled [OF assms])
  next
    case Off
    with Pair show ?thesis by (simp add: ios_off_def ios_setTorchMode_coupled [OF assms])
  next
    case Toggle
    with Pair show ?thesis by (simp add: ios_toggle_def ios_setTorchMode_coupled [OF assms])
  next
    case (SetLevel level)
    with Pair assms show ?thesis
      by (simp add: ios_setLevel_def ios_setTorchMode_coupled [OF assms])
  next
    case Dispose
    show ?thesis
    proof (cases "isTorchOn s")
      case False
      with Pair Dispose show ?thesis by (simp add: ios_dispose_def)
    next
      case True
      obtain e s' where r: "ios_setTorchMode device False None s = (e, s')"
        by (cases "ios_setTorchMode device False None s")
      show ?thesis
      proof (cases e)
        case None
        with r have "\<not> isTorchOn s'" by (simp add: ios_setTorchMode_off_result)
        with Pair Dispose True r None show ?thesis by (simp add: ios_dispose_def)
      next
        case (Some err)
        have "isTorchOn s' = (previousLevel s' \<noteq> None)"
          using ios_setTorchMode_coupled [OF assms, of device False None] r by simp
        with Pair Dispose True r Some show ?thesis by (simp add: ios_dispose_def)
      qed
    qed
  qed
qed

lemma ios_run_coupled:
  assumes "isTorchOn s = (previousLevel s \<noteq> None)"
  shows "isTorchOn (ios_run steps s) = (previousLevel (ios_run steps s) \<noteq> None)"
  using assms
proof (induction steps arbitrary: s)
  case Nil
  then show ?case by simp
next
  case (Cons x xs)
  from Cons.prems have "isTorchOn (ios_step x s) = (previousLevel (ios_step x s) \<noteq> None)"
    by (rule ios_step_coupled)
  then show ?case by (simp add: Cons.IH)
qed

text \<open>
  Claim C9 as the specification states it: in every reachable state the torch is recorded
  as off exactly when the last notified level is none. On Android it is not so: after
  \<^verbatim>\<open>on()\<close> and the hardware's torch-mode notification the torch is recorded as on and no
  level has been notified.
\<close>

theorem coupling_counterexample:
  "isTorchOn_a (android_run [(handset, Call On), (handset, TorchModeChanged True)] android_init)
   \<and> previousLevel_a (android_run [(handset, Call On), (handset, TorchModeChanged True)] android_init)
       = None"
  by (simp add: android_on_def rethrow_def onTorchModeChanged_def
      android_setTorchMode_ok [where manager = "[back_camera]" and cid = "''0''"] handset_facts)
    (simp add: android_init_def)

text \<open>
  Claim C9, amended. On iOS, in every state that a sequence of \<^verbatim>\<open>on\<close>, \<^verbatim>\<open>off\<close>, \<^verbatim>\<open>toggle\<close>,
  \<^verbatim>\<open>setLevel\<close> and \<^verbatim>\<open>dispose\<close> calls reaches from the initial state, whatever the device does
  at each call, the torch is recorded as on exactly when the last notified level is not
  none. On Android the power flag and the last notified level are set by separate hardware
  notifications and are coupled only at one point: right after a torch-off notification
  the torch is recorded as off and the last notified level is none.
\<close>

theorem state_level_coupling:
  "isTorchOn (ios_run steps ios_init) = (previousLevel (ios_run steps ios_init) \<noteq> None)
   \<and> \<not> isTorchOn_a (onTorchModeChanged False t)
   \<and> previousLevel_a (onTorchModeChanged False t) = None"
proof (intro conjI)
  show "isTorchOn (ios_run steps ios_init) = (previousLevel (ios_run steps ios_init) \<noteq> None)"
    by (rule ios_run_coupled) (simp add: ios_init_def)
  show "\<not> isTorchOn_a (onTorchModeChanged False t)"
    by (simp add: onTorchModeChanged_def Let_def)
  show "previousLevel_a (onTorchModeChanged False t) = None"
    by (simp add: onTorchModeChanged_def Let_def)
qed


section \<open>Two toggles in a row\<close>

lemma ios_toggle_on:
  assumes "\<not> isTorchOn s" "hasTorch d" "lockThrows d = None" "setTorchModeOnThrows d = None"
  shows "snd (ios_toggle (Some d) s) =
           ios_notify True
             (s\<lparr>calls := calls s @ [LockForConfiguration,
                  SetTorchModeOn (clampedLevel (maxAvailableTorchLevel d)
                    (toFloat (toDouble (currentLevel s / maxTorchLevel)))),
                  UnlockForConfiguration]\<rparr>)"
  using assms by (simp add: ios_toggle_def ios_setTorchMode_def Let_def)

lemma ios_toggle_off:
  assumes "isTorchOn s" "hasTorch d" "lockThrows d = None"
  shows "snd (ios_toggle (Some d) s) =
           ios_notify False
             (s\<lparr>calls := calls s @ [LockForConfiguration, TorchModeOff, UnlockForConfiguration]\<rparr>)"
  using assms by (simp add: ios_toggle_def ios_setTorchMode_def Let_def)

lemma ios_notify_calls [simp]: "calls (ios_notify enable s) = calls s"
  by (simp add: ios_notify_def Let_def)

lemma android_toggle_ok:
  assumes "cameraManager env = Some manager" "MIN_API_LEVEL \<le> SDK_INT env"
    "cameraId (ensureCameraId env t) = Some cid" "torchCallThrows env = None"
  shows "snd (android_toggle env t) =
           (ensureCameraId env t)\<lparr>calls_a := calls_a t @ [SetTorchMode cid (\<not> isTorchOn_a t)]\<rparr>"
  using assms by (simp add: android_toggle_def rethrow_def android_setTorchMode_ok)

lemma ios_two_toggles:
  assumes "\<not> isTorchOn s" "hasTorch d1" "lockThrows d1 = None" "setTorchModeOnThrows d1 = None"
    "hasTorch d2" "lockThrows d2 = None"
  shows "\<not> isTorchOn (ios_run [(Some d1, Toggle), (Some d2, Toggle)] s)"
    and "calls (ios_run [(Some d1, Toggle), (Some d2, Toggle)] s) =
          calls s @ [LockForConfiguration,
                     SetTorchModeOn (clampedLevel (maxAvailableTorchLevel d1)
                       (toFloat (toDouble (currentLevel s / maxTorchLevel)))),
                     UnlockForConfiguration,
                     LockForConfiguration, TorchModeOff, UnlockForConfiguration]"
proof -
  let ?s1 = "snd (ios_toggle (Some d1) s)"
  have s1: "?s1 = ios_notify True
             (s\<lparr>calls := calls s @ [LockForConfiguration,
                  SetTorchModeOn (clampedLevel (maxAvailableTorchLevel d1)
                    (toFloat (toDouble (currentLevel s / maxTorchLevel)))),
                  UnlockForConfiguration]\<rparr>)"
    using assms by (simp add: ios_toggle_on)
  have on: "isTorchOn ?s1" by (simp add: s1)
  have s2: "snd (ios_toggle (Some d2) ?s1) =
              ios_notify False
                (?s1\<lparr>calls := calls ?s1 @ [LockForConfiguration, TorchModeOff, UnlockForConfiguration]\<rparr>)"
    using assms on by (simp add: ios_toggle_off)
  show "\<not> isTorchOn (ios_run [(Some d1, Toggle), (Some d2, Toggle)] s)"
    by (simp add: s2)
  show "calls (ios_run [(Some d1, Toggle), (Some d2, Toggle)] s) =
          calls s @ [LockForConfiguration,
                     SetTorchModeOn (clampedLevel (maxAvailableTorchLevel d1)
                       (toFloat (toDouble (currentLevel s / maxTorchLevel)))),
                     UnlockForConfiguration,
                     LockForConfiguration, TorchModeOff, UnlockForConfiguration]"
    by (simp add: s2) (simp add: s1)
qed

lemma android_two_toggles:
  assumes off: "\<not> isTorchOn_a t"
    and env: "cameraManager env = Some manager" "MIN_API_LEVEL \<le> SDK_INT env"
      "torchCallThrows env = None"
    and cid: "cameraId (ensureCameraId env t) = Some cid"
  shows "\<not> isTorchOn_a (android_run [(env, Call Toggle), (env, TorchModeChanged True),
                                  (env, Call Toggle), (env, TorchModeChanged False)] t)"
    and "calls_a (android_run [(env, Call Toggle), (env, TorchModeChanged True),
                              (env, Call Toggle), (env, TorchModeChanged False)] t) =
          calls_a t @ [SetTorchMode cid True, SetTorchMode cid False]"
    and "calls_a (android_run [(env, Call Toggle), (env, Call Toggle)] t) =
          calls_a t @ [SetTorchMode cid True, SetTorchMode cid True]"
proof -
  let ?t1 = "snd (android_toggle env t)"
  have t1: "?t1 = (ensureCameraId env t)\<lparr>calls_a := calls_a t @ [SetTorchMode cid True]\<rparr>"
    using off by (simp add: android_toggle_ok [OF env(1,2) cid env(3)])
  have c1: "cameraId ?t1 = Some cid" by (simp add: t1 cid)
  let ?t2 = "onTorchModeChanged True ?t1"
  have c2: "cameraId (ensureCameraId env ?t2) = Some cid"
    using c1 by (simp add: ensureCameraId_resolved onTorchModeChanged_def Let_def)
  have on2: "isTorchOn_a ?t2" by (simp add: onTorchModeChanged_def Let_def)
  have calls2: "calls_a ?t2 = calls_a t @ [SetTorchMode cid True]"
    by (simp add: onTorchModeChanged_def Let_def t1)
  have t3: "snd (android_toggle env ?t2) =
              (ensureCameraId env ?t2)\<lparr>calls_a := calls_a t @ [SetTorchMode cid True, SetTorchMode cid False]\<rparr>"
    using on2 calls2 by (simp add: android_toggle_ok [OF env(1,2) c2 env(3)])
  show "\<not> isTorchOn_a (android_run [(env, Call Toggle), (env, TorchModeChanged True),
                                  (env, Call Toggle), (env, TorchModeChanged False)] t)"
    by (simp add: onTorchModeChanged_def Let_def)
  show "calls_a (android_run [(env, Call Toggle), (env, TorchModeChanged True),
                              (env, Call Toggle), (env, TorchModeChanged False)] t) =
          calls_a t @ [SetTorchMode cid True, SetTorchMode cid False]"
    using t3 by (simp add: onTorchModeChanged_def [of False] Let_def)
  have c1': "cameraId (ensureCameraId env ?t1) = Some cid"
    using c1 by (simp add: ensureCameraId_resolved)
  have off1: "\<not> isTorchOn_a ?t1" using off by (simp add: t1)
  have "snd (android_toggle env ?t1) =
          (ensureCameraId env ?t1)\<lparr>calls_a := calls_a ?t1 @ [SetTorchMode cid True]\<rparr>"
    using off1 by (simp add: android_toggle_ok [OF env(1,2) c1' env(3)])
  then show "calls_a (android_run [(env, Call Toggle), (env, Call Toggle)] t) =
          calls_a t @ [SetTorchMode cid True, SetTorchMode cid True]"
    by (simp add: t1)
qed

text \<open>
  Claim C10 as the specification states it: two \<^verbatim>\<open>toggle()\<close> calls in a row on a device
  that is off leave it off, the second undoing the first. On Android, when the second call
  runs before the hardware's notification of the first has arrived, it does not: both
  calls find the torch recorded as off, and both send the command that turns it on.
\<close>

theorem toggle_twice_counterexample:
  "calls_a (android_run [(handset, Call Toggle), (handset, Call Toggle)] android_init) =
     [SetTorchMode ''0'' True, SetTorchMode ''0'' True]"
proof -
  have "\<not> isTorchOn_a android_init" "calls_a android_init = []"
    "cameraId (ensureCameraId handset android_init) = Some ''0''"
    by (simp_all add: handset_facts) (simp_all add: android_init_def)
  then show ?thesis
    using android_two_toggles(3) [of android_init handset "[back_camera]" "''0''"]
    by (simp only: handset_facts append_Nil simp_thms)
qed

text \<open>
  Claim C10, amended. The controllers keep no queue of calls: each call acts on the state
  that the controller records when the call runs. Two \<^verbatim>\<open>toggle()\<close> calls on a cooperating
  device that is recorded as off leave it off, the first sending the hardware ``on'' and the
  second ``off'', provided the second runs once the first one's change of state has been
  recorded: on iOS that is when the first call has returned; on Android it is when the
  hardware's torch-mode notification for the first call has arrived. When the second
  Android call runs before that notification, both calls send ``on''.
\<close>

theorem toggle_twice:
  "(\<not> isTorchOn s \<and> hasTorch d1 \<and> lockThrows d1 = None \<and> setTorchModeOnThrows d1 = None
      \<and> hasTorch d2 \<and> lockThrows d2 = None \<longrightarrow>
      \<not> isTorchOn (ios_run [(Some d1, Toggle), (Some d2, Toggle)] s)
      \<and> calls (ios_run [(Some d1, Toggle), (Some d2, Toggle)] s) =
          calls s @ [LockForConfiguration,
                     SetTorchModeOn (clampedLevel (maxAvailableTorchLevel d1)
                       (toFloat (toDouble (currentLevel s / maxTorchLevel)))),
                     UnlockForConfiguration,
                     LockForConfiguration, TorchModeOff, UnlockForConfiguration])
   \<and> (\<not> isTorchOn_a t \<and> cameraManager env = Some manager \<and> MIN_API_LEVEL \<le> SDK_INT env
        \<and> cameraId (ensureCameraId env t) = Some cid \<and> torchCallThrows env = None \<longrightarrow>
      \<not> isTorchOn_a (android_run [(env, Call Toggle), (env, TorchModeChanged True),
                                  (env, Call Toggle), (env, TorchModeChanged False)] t)
      \<and> calls_a (android_run [(env, Call Toggle), (env, TorchModeChanged True),
                              (env, Call Toggle), (env, TorchModeChanged False)] t) =
          calls_a t @ [SetTorchMode cid True, SetTorchMode cid False]
      \<and> calls_a (android_run [(env, Call Toggle), (env, Call Toggle)] t) =
          calls_a t @ [SetTorchMode cid True, SetTorchMode cid True])"
  using ios_two_toggles [of s d1 d2] android_two_toggles [of t env manager cid]
  by simp

theorem toggle_twice_witness:
  "\<not> isTorchOn ios_init \<and> hasTorch iphone \<and> lockThrows iphone = None
   \<and> setTorchModeOnThrows iphone = None
   \<and> \<not> isTorchOn (ios_run [(Some iphone, Toggle), (Some iphone, Toggle)] ios_init)
   \<and> calls (ios_run [(Some iphone, Toggle), (Some iphone, Toggle)] ios_init) =
        [LockForConfiguration, SetTorchModeOn (normalizedLevel 1), UnlockForConfiguration,
         LockForConfiguration, TorchModeOff, UnlockForConfiguration]
   \<and> \<not> isTorchOn_a android_init \<and> cameraManager handset = Some [back_camera]
   \<and> MIN_API_LEVEL \<le> SDK_INT handset
   \<and> cameraId (ensureCameraId handset android_init) = Some ''0'' \<and> torchCallThrows handset = None
   \<and> \<not> isTorchOn_a (android_run [(handset, Call Toggle), (handset, TorchModeChanged True),
                                  (handset, Call Toggle), (handset, TorchModeChanged False)]
                      android_init)
   \<and> calls_a (android_run [(handset, Call Toggle), (handset, TorchModeChanged True),
                           (handset, Call Toggle), (handset, TorchModeChanged False)]
               android_init) = [SetTorchMode ''0'' True, SetTorchMode ''0'' False]"
proof -
  have n: "clampedLevel 1 (toFloat (toDouble (1 / maxTorchLevel))) = normalizedLevel 1"
    using ios_roundtrip(1) [of 1] by (simp add: maxTorchLevel_def normalizedLevel_def)
  show ?thesis
    using toggle_twice [where s = ios_init and ?d1.0 = iphone and ?d2.0 = iphone
        and t = android_init and env = handset and manager = "[back_camera]" and cid = "''0''"] n
    by (simp add: iphone_def ios_init_def handset_facts) (simp add: android_init_def)
qed


end
